theory Spec2Isabelle
  imports Complex_Main
begin

section \<open>Personal library manager: the Book and Library classes\<close>

text \<open>
  A shallow embedding of the classes \<open>Book\<close> and \<open>Library\<close> of
  \<^verbatim>\<open>personal_library_manager.py\<close>. Objects are records whose fields carry the
  types of the constructor's annotations; a method that mutates its object takes the
  object and returns the outcome of the call together with the object as the call
  leaves it, so that a call that raises after its first assignments shows the
  assignments it made. Exceptions are values of the type \<open>error\<close>.
  The clock (\<^verbatim>\<open>datetime.datetime.now()\<close>) and the file system are arguments.
\<close>

subsection \<open>Strings\<close>


definition lower_char :: "char \<Rightarrow> char" where
  "lower_char c =
     (case map_of (zip ''ABCDEFGHIJKLMNOPQRSTUVWXYZ'' ''abcdefghijklmnopqrstuvwxyz'') c of
        None \<Rightarrow> c
      | Some l \<Rightarrow> l)"

definition lower :: "string \<Rightarrow> string" where
  "lower s = map lower_char s"

text \<open>The operator \<^verbatim>\<open>q in s\<close> on strings: \<open>q\<close> occurs in \<open>s\<close> as a contiguous piece.\<close>

fun startswith :: "string \<Rightarrow> string \<Rightarrow> bool" where
  "startswith s [] = True"
| "startswith [] (c # q) = False"
| "startswith (d # s) (c # q) = (d = c \<and> startswith s q)"

fun contains :: "string \<Rightarrow> string \<Rightarrow> bool" where
  "contains [] q = (q = [])"
| "contains (d # s) q = (startswith (d # s) q \<or> contains s q)"

text \<open>\<^verbatim>\<open>str(n)\<close> for an integer: its decimal digits, with a minus sign when negative.\<close>

definition digit_char :: "nat \<Rightarrow> char" where
  "digit_char d = ''0123456789'' ! d"

fun str_nat :: "nat \<Rightarrow> string" where
  "str_nat n = (if n < 10 then [digit_char n] else str_nat (n div 10) @ [digit_char (n mod 10)])"

declare str_nat.simps [simp del]

definition str_int :: "int \<Rightarrow> string" where
  "str_int i = (if i < 0 then CHR ''-'' # str_nat (nat (- i)) else str_nat (nat i))"

definition zfill :: "nat \<Rightarrow> string \<Rightarrow> string" where
  "zfill w s = replicate (w - length s) CHR ''0'' @ s"

subsection \<open>Dates\<close>

text \<open>
  A date is its proleptic Gregorian ordinal (\<^verbatim>\<open>date.toordinal()\<close>): day 1 is
  0001-01-01 and day 3652059 is 9999-12-31, the last date a \<^verbatim>\<open>datetime\<close> holds.
  The time of day is dropped: the program only ever formats dates with
  \<^verbatim>\<open>"%Y-%m-%d"\<close>. \<open>ord2ymd\<close> follows the standard library's conversion of an ordinal
  to year, month and day. \<open>strftime\<close> writes what the C library of Linux (glibc)
  writes for that format: the year as a decimal number without padding, so the first
  day is \<^verbatim>\<open>1-01-01\<close>, and the month and the day with two digits.
\<close>

definition days_before_month :: "int \<Rightarrow> int" where
  "days_before_month m = [0, 0, 31, 59, 90, 120, 151, 181, 212, 243, 273, 304, 334] ! nat m"

definition days_in_month :: "int \<Rightarrow> int" where
  "days_in_month m = [0, 31, 28, 31, 30, 31, 30, 31, 31, 30, 31, 30, 31] ! nat m"

definition ord2ymd :: "int \<Rightarrow> int \<times> int \<times> int" where
  "ord2ymd ordinal =
     (let n = ordinal - 1;
          n400 = n div 146097; n = n mod 146097;
          n100 = n div 36524; n = n mod 36524;
          n4 = n div 1461; n = n mod 1461;
          n1 = n div 365; n = n mod 365;
          y = n400 * 400 + 1 + n100 * 100 + n4 * 4 + n1
      in if n1 = 4 \<or> n100 = 4 then (y - 1, 12, 31)
         else
           let leapyear = (n1 = 3 \<and> (n4 \<noteq> 24 \<or> n100 = 3));
               month = (n + 50) div 32;
               preceding = days_before_month month + (if month > 2 \<and> leapyear then 1 else 0)
           in if preceding > n
              then let month = month - 1;
                       preceding = preceding -
                         (days_in_month month + (if month = 2 \<and> leapyear then 1 else 0))
                   in (y, month, n - preceding + 1)
              else (y, month, n - preceding + 1))"

definition strftime :: "int \<Rightarrow> string" where
  "strftime ordinal =
     (case ord2ymd ordinal of
        (y, m, d) \<Rightarrow> str_int y @ ''-'' @ zfill 2 (str_int m) @ ''-'' @ zfill 2 (str_int d))"

text \<open>
  \<^verbatim>\<open>today + datetime.timedelta(days=days)\<close> raises \<^verbatim>\<open>OverflowError\<close> when the
  number of days has more than nine digits (the \<^verbatim>\<open>timedelta\<close> cannot be built) or
  when the sum is not a date between 0001-01-01 and 9999-12-31.
\<close>

definition representable :: "int \<Rightarrow> int \<Rightarrow> bool" where
  "representable today days =
     (\<bar>days\<bar> \<le> 999999999 \<and> 1 \<le> today + days \<and> today + days \<le> 3652059)"

subsection \<open>Exceptions and values\<close>

datatype error =
    ValueError string
  | KeyError string
  | OverflowError
  | TypeError
  | AttributeError
  | OSError
  | JSONDecodeError
  | ZeroDivisionError

text \<open>
  The values that keyword arguments and attributes hold: \<^verbatim>\<open>None\<close>, an integer, a
  string, or a list of strings.
\<close>

datatype pyval = PNone | PInt int | PStr string | PList "string list"

subsection \<open>Book\<close>

record book =
  title :: string
  author :: string
  isbn :: string
  genre :: string
  year :: "int option"
  publisher :: string
  pages :: "int option"
  description :: string
  location :: string
  status :: string
  rating :: "int option"
  date_added :: string
  borrowed_by :: string
  borrowed_date :: string
  due_date :: string
  tags :: "string list"

text \<open>
  \<^verbatim>\<open>Book.__init__\<close>. The first argument is the clock; the others are the constructor's
  parameters in its order. The parameters \<^verbatim>\<open>date_added\<close> and \<^verbatim>\<open>tags\<close> default to
  \<^verbatim>\<open>None\<close>. The body has no check and no \<^verbatim>\<open>raise\<close>.
\<close>

definition Book_init ::
  "int \<Rightarrow> string \<Rightarrow> string \<Rightarrow> string \<Rightarrow> string \<Rightarrow> int option \<Rightarrow> string \<Rightarrow> int option \<Rightarrow>
   string \<Rightarrow> string \<Rightarrow> string \<Rightarrow> int option \<Rightarrow> string option \<Rightarrow> string list option \<Rightarrow> book" where
  "Book_init today t a i g y p n d l s r added tgs =
     \<lparr> title = t, author = a, isbn = i, genre = g, year = y, publisher = p, pages = n,
       description = d, location = l, status = s, rating = r,
       date_added = (case added of None \<Rightarrow> strftime today | Some da \<Rightarrow> da),
       borrowed_by = '''', borrowed_date = '''', due_date = '''',
       tags = (case tgs of None \<Rightarrow> [] | Some ts \<Rightarrow> ts) \<rparr>"

text \<open>\<^verbatim>\<open>Book(title, author)\<close>: every optional parameter at its default.\<close>

definition Book_default :: "int \<Rightarrow> string \<Rightarrow> string \<Rightarrow> book" where
  "Book_default today t a =
     Book_init today t a '''' '''' None '''' None '''' ''Shelf'' ''Available'' None None None"

text \<open>
  \<^verbatim>\<open>Book.to_dict\<close> and \<^verbatim>\<open>Book.from_dict\<close>. The dictionary is a record with one
  optional entry per key that \<open>from_dict\<close> reads: \<open>None\<close> is an absent key, and for
  \<^verbatim>\<open>year\<close>, \<^verbatim>\<open>pages\<close>, \<^verbatim>\<open>rating\<close> and \<^verbatim>\<open>date_added\<close>, which are read with
  \<^verbatim>\<open>data.get(key)\<close>, also a key whose value is \<^verbatim>\<open>null\<close>. Values are of the type of
  the attribute they are stored in.
\<close>

record book_doc =
  doc_title :: "string option"
  doc_author :: "string option"
  doc_isbn :: "string option"
  doc_genre :: "string option"
  doc_year :: "int option"
  doc_publisher :: "string option"
  doc_pages :: "int option"
  doc_description :: "string option"
  doc_location :: "string option"
  doc_status :: "string option"
  doc_rating :: "int option"
  doc_date_added :: "string option"
  doc_borrowed_by :: "string option"
  doc_borrowed_date :: "string option"
  doc_due_date :: "string option"
  doc_tags :: "string list option"

definition to_dict :: "book \<Rightarrow> book_doc" where
  "to_dict b =
     \<lparr> doc_title = Some (title b), doc_author = Some (author b), doc_isbn = Some (isbn b),
       doc_genre = Some (genre b), doc_year = year b, doc_publisher = Some (publisher b),
       doc_pages = pages b, doc_description = Some (description b),
       doc_location = Some (location b), doc_status = Some (status b),
       doc_rating = rating b, doc_date_added = Some (date_added b),
       doc_borrowed_by = Some (borrowed_by b), doc_borrowed_date = Some (borrowed_date b),
       doc_due_date = Some (due_date b), doc_tags = Some (tags b) \<rparr>"

definition get_or :: "'a option \<Rightarrow> 'a \<Rightarrow> 'a" where
  "get_or entry dflt = (case entry of None \<Rightarrow> dflt | Some v \<Rightarrow> v)"

definition from_dict :: "int \<Rightarrow> book_doc \<Rightarrow> error + book" where
  "from_dict today data =
     (case doc_title data of
        None \<Rightarrow> Inl (KeyError ''title'')
      | Some t \<Rightarrow>
          (case doc_author data of
             None \<Rightarrow> Inl (KeyError ''author'')
           | Some a \<Rightarrow>
               Inr ((Book_init today t a
                       (get_or (doc_isbn data) '''')
                       (get_or (doc_genre data) '''')
                       (doc_year data)
                       (get_or (doc_publisher data) '''')
                       (doc_pages data)
                       (get_or (doc_description data) '''')
                       (get_or (doc_location data) ''Shelf'')
                       (get_or (doc_status data) ''Available'')
                       (doc_rating data)
                       (doc_date_added data)
                       (Some (get_or (doc_tags data) [])))
                     \<lparr> borrowed_by := get_or (doc_borrowed_by data) '''',
                       borrowed_date := get_or (doc_borrowed_date data) '''',
                       due_date := get_or (doc_due_date data) '''' \<rparr>)))"

text \<open>
  \<^verbatim>\<open>Book.lend\<close>. The status, the borrower and the borrowing date are assigned before
  the due date is computed, so a call whose due date overflows raises with these three
  attributes already changed.
\<close>

definition lend :: "int \<Rightarrow> book \<Rightarrow> string \<Rightarrow> int \<Rightarrow> (error + unit) \<times> book" where
  "lend today b borrower days =
     (if status b \<noteq> ''Available''
      then (Inl (ValueError (''Book is not available. Current status: '' @ status b)), b)
      else
        let b1 = b\<lparr> status := ''Borrowed'', borrowed_by := borrower,
                    borrowed_date := strftime today \<rparr>
        in if \<not> representable today days then (Inl OverflowError, b1)
           else (Inr (), b1\<lparr> due_date := strftime (today + days) \<rparr>))"

text \<open>\<^verbatim>\<open>book.lend(borrower)\<close>: the parameter \<^verbatim>\<open>days\<close> at its default.\<close>

definition lend_default :: "int \<Rightarrow> book \<Rightarrow> string \<Rightarrow> (error + unit) \<times> book" where
  "lend_default today b borrower = lend today b borrower 14"

definition return_book :: "book \<Rightarrow> (error + unit) \<times> book" where
  "return_book b =
     (if status b \<noteq> ''Borrowed''
      then (Inl (ValueError (''Book is not borrowed. Current status: '' @ status b)), b)
      else (Inr (), b\<lparr> status := ''Available'', borrowed_by := '''',
                        borrowed_date := '''', due_date := '''' \<rparr>))"

subsection \<open>Library\<close>

record library =
  name :: string
  books :: "book list"
  file_path :: string

definition Library_init :: "string \<Rightarrow> library" where
  "Library_init n = \<lparr> name = n, books = [], file_path = ''library_data.json'' \<rparr>"


definition same_title_author :: "book \<Rightarrow> book \<Rightarrow> bool" where
  "same_title_author existing_book b =
     (lower (title existing_book) = lower (title b) \<and>
      lower (author existing_book) = lower (author b))"

definition add_book :: "library \<Rightarrow> book \<Rightarrow> (error + unit) \<times> library" where
  "add_book lib b =
     (if list_ex (\<lambda>existing_book. same_title_author existing_book b) (books lib)
      then (Inl (ValueError (''Book '' @ [CHR 0x27] @ title b @ [CHR 0x27] @ '' by '' @ author b @
                   '' already exists in the library.'')), lib)
      else (Inr (), lib\<lparr> books := books lib @ [b] \<rparr>))"

text \<open>
  \<^verbatim>\<open>Library.update_book\<close>. A keyword argument that names an attribute of the book
  is one constructor, holding a value of the attribute's type; \<open>Kw_other\<close> is a
  keyword that names nothing the book has (\<^verbatim>\<open>hasattr\<close> is false) and is skipped.
\<close>

datatype kwarg =
    Kw_title string
  | Kw_author string
  | Kw_isbn string
  | Kw_genre string
  | Kw_year "int option"
  | Kw_publisher string
  | Kw_pages "int option"
  | Kw_description string
  | Kw_location string
  | Kw_status string
  | Kw_rating "int option"
  | Kw_date_added string
  | Kw_borrowed_by string
  | Kw_borrowed_date string
  | Kw_due_date string
  | Kw_tags "string list"
  | Kw_other string pyval

fun setattr_book :: "book \<Rightarrow> kwarg \<Rightarrow> book" where
  "setattr_book b (Kw_title v) = b\<lparr> title := v \<rparr>"
| "setattr_book b (Kw_author v) = b\<lparr> author := v \<rparr>"
| "setattr_book b (Kw_isbn v) = b\<lparr> isbn := v \<rparr>"
| "setattr_book b (Kw_genre v) = b\<lparr> genre := v \<rparr>"
| "setattr_book b (Kw_year v) = b\<lparr> year := v \<rparr>"
| "setattr_book b (Kw_publisher v) = b\<lparr> publisher := v \<rparr>"
| "setattr_book b (Kw_pages v) = b\<lparr> pages := v \<rparr>"
| "setattr_book b (Kw_description v) = b\<lparr> description := v \<rparr>"
| "setattr_book b (Kw_location v) = b\<lparr> location := v \<rparr>"
| "setattr_book b (Kw_status v) = b\<lparr> status := v \<rparr>"
| "setattr_book b (Kw_rating v) = b\<lparr> rating := v \<rparr>"
| "setattr_book b (Kw_date_added v) = b\<lparr> date_added := v \<rparr>"
| "setattr_book b (Kw_borrowed_by v) = b\<lparr> borrowed_by := v \<rparr>"
| "setattr_book b (Kw_borrowed_date v) = b\<lparr> borrowed_date := v \<rparr>"
| "setattr_book b (Kw_due_date v) = b\<lparr> due_date := v \<rparr>"
| "setattr_book b (Kw_tags v) = b\<lparr> tags := v \<rparr>"
| "setattr_book b (Kw_other k v) = b"

definition update_book :: "library \<Rightarrow> int \<Rightarrow> kwarg list \<Rightarrow> (error + unit) \<times> library" where
  "update_book lib book_id kwargs =
     (if 0 \<le> book_id \<and> book_id < int (length (books lib))
      then (Inr (), lib\<lparr> books := (books lib)[nat book_id :=
                                foldl setattr_book (books lib ! nat book_id) kwargs] \<rparr>)
      else (Inl (ValueError (''Invalid book ID: '' @ str_int book_id)), lib))"

text \<open>
  \<^verbatim>\<open>getattr(book, key)\<close> for the attributes that \<^verbatim>\<open>__init__\<close> assigns; \<open>None\<close> is
  \<^verbatim>\<open>hasattr(book, key) == False\<close>. The methods of the class are not attributes here:
  no caller passes their names.
\<close>

definition opt_int :: "int option \<Rightarrow> pyval" where
  "opt_int v = (case v of None \<Rightarrow> PNone | Some i \<Rightarrow> PInt i)"

definition attributes :: "book \<Rightarrow> (string \<times> pyval) list" where
  "attributes b =
     [(''title'', PStr (title b)), (''author'', PStr (author b)), (''isbn'', PStr (isbn b)),
      (''genre'', PStr (genre b)), (''year'', opt_int (year b)),
      (''publisher'', PStr (publisher b)), (''pages'', opt_int (pages b)),
      (''description'', PStr (description b)), (''location'', PStr (location b)),
      (''status'', PStr (status b)), (''rating'', opt_int (rating b)),
      (''date_added'', PStr (date_added b)), (''borrowed_by'', PStr (borrowed_by b)),
      (''borrowed_date'', PStr (borrowed_date b)), (''due_date'', PStr (due_date b)),
      (''tags'', PList (tags b))]"

definition getattr_book :: "book \<Rightarrow> string \<Rightarrow> pyval option" where
  "getattr_book b key = map_of (attributes b) key"

text \<open>
  \<^verbatim>\<open>str(value)\<close>. The list case is never reached by \<open>search_books\<close>: the only list
  attribute is \<^verbatim>\<open>tags\<close>, which its first branch handles.
\<close>

fun py_str :: "pyval \<Rightarrow> string" where
  "py_str PNone = ''None''"
| "py_str (PInt i) = str_int i"
| "py_str (PStr s) = s"
| "py_str (PList ts) = concat ts"

text \<open>
  \<^verbatim>\<open>Library.search_books\<close>. \<open>field_matches\<close> is the body of the inner loop for one
  field, \<open>book_matches\<close> the inner loop (it stops at the first field that matches), and
  \<open>search_from\<close> the outer loop over \<^verbatim>\<open>enumerate(self.books)\<close>, started at index \<open>i\<close>.
\<close>

definition default_fields :: "string list" where
  "default_fields =
     [''title'', ''author'', ''isbn'', ''genre'', ''publisher'', ''description'', ''tags'']"

definition field_matches :: "string \<Rightarrow> book \<Rightarrow> string \<Rightarrow> bool" where
  "field_matches query b field =
     (if field = ''tags'' then list_ex (\<lambda>tag. contains (lower tag) query) (tags b)
      else (case getattr_book b field of
              None \<Rightarrow> False
            | Some PNone \<Rightarrow> False
            | Some v \<Rightarrow> contains (lower (py_str v)) query))"

definition book_matches :: "string \<Rightarrow> string list \<Rightarrow> book \<Rightarrow> bool" where
  "book_matches query flds b = list_ex (field_matches query b) flds"

fun search_from :: "nat \<Rightarrow> string \<Rightarrow> string list \<Rightarrow> book list \<Rightarrow> nat list" where
  "search_from i query flds [] = []"
| "search_from i query flds (b # bs) =
     (if book_matches query flds b then i # search_from (Suc i) query flds bs
      else search_from (Suc i) query flds bs)"

definition search_books :: "library \<Rightarrow> string \<Rightarrow> string list option \<Rightarrow> nat list" where
  "search_books lib query flds =
     search_from 0 (lower query) (get_or flds default_fields) (books lib)"

text \<open>
  \<^verbatim>\<open>Library.filter_books\<close>. \<open>match_kwargs\<close> is the inner loop over the keyword
  arguments with its chain of \<^verbatim>\<open>if\<close>/\<^verbatim>\<open>elif\<close>: a ranged key is handled by its own
  branch only when the book's year (rating) is not \<^verbatim>\<open>None\<close>; otherwise the chain goes
  on to \<^verbatim>\<open>hasattr(book, key)\<close>. Comparing an integer with a value that is not one
  raises \<^verbatim>\<open>TypeError\<close>.
\<close>

definition guarded :: "bool \<Rightarrow> int option \<Rightarrow> int option" where
  "guarded is_key attr = (if is_key then attr else None)"

fun less_than :: "int \<Rightarrow> pyval \<Rightarrow> error + bool" where
  "less_than x (PInt v) = Inr (x < v)"
| "less_than x v = Inl TypeError"

fun greater_than :: "int \<Rightarrow> pyval \<Rightarrow> error + bool" where
  "greater_than x (PInt v) = Inr (x > v)"
| "greater_than x v = Inl TypeError"

fun match_kwargs :: "book \<Rightarrow> (string \<times> pyval) list \<Rightarrow> error + bool" where
  "match_kwargs b [] = Inr True"
| "match_kwargs b ((key, val) # kwargs) =
     (let continue = (\<lambda>mismatch.
            case mismatch of
              Inl e \<Rightarrow> Inl e
            | Inr True \<Rightarrow> Inr False
            | Inr False \<Rightarrow> match_kwargs b kwargs)
      in case guarded (key = ''year_from'') (year b) of
           Some y \<Rightarrow> continue (less_than y val)
         | None \<Rightarrow>
        (case guarded (key = ''year_to'') (year b) of
           Some y \<Rightarrow> continue (greater_than y val)
         | None \<Rightarrow>
        (case guarded (key = ''rating_from'') (rating b) of
           Some r \<Rightarrow> continue (less_than r val)
         | None \<Rightarrow>
        (case guarded (key = ''rating_to'') (rating b) of
           Some r \<Rightarrow> continue (greater_than r val)
         | None \<Rightarrow>
        (case getattr_book b key of
           Some book_value \<Rightarrow> continue (Inr (book_value \<noteq> val))
         | None \<Rightarrow> Inr False)))))"

fun filter_from :: "nat \<Rightarrow> (string \<times> pyval) list \<Rightarrow> book list \<Rightarrow> error + nat list" where
  "filter_from i kwargs [] = Inr []"
| "filter_from i kwargs (b # bs) =
     (case match_kwargs b kwargs of
        Inl e \<Rightarrow> Inl e
      | Inr m \<Rightarrow>
          (case filter_from (Suc i) kwargs bs of
             Inl e \<Rightarrow> Inl e
           | Inr results \<Rightarrow> Inr (if m then i # results else results)))"

definition filter_books :: "library \<Rightarrow> (string \<times> pyval) list \<Rightarrow> error + nat list" where
  "filter_books lib kwargs = filter_from 0 kwargs (books lib)"

subsection \<open>Persistence\<close>

text \<open>
  The persisted document \<^verbatim>\<open>{"name": ..., "books": [...]}\<close>, each key optional for
  \<^verbatim>\<open>data.get\<close>. A path of the file system is absent (\<^verbatim>\<open>os.path.exists\<close> is false)
  or present; a present path either cannot be opened for reading, or holds text that
  \<^verbatim>\<open>json.load\<close> rejects, or a JSON value that is not an object, or a document.
  \<open>writable\<close> tells whether \<^verbatim>\<open>open(path, 'w')\<close> succeeds; a file that was written can
  be read back.
\<close>

record library_doc =
  doc_name :: "string option"
  doc_books :: "book_doc list option"

datatype content = Not_JSON | Not_an_object | Document library_doc

datatype entry = Unreadable | Readable content

record filesystem =
  entries :: "string \<Rightarrow> entry option"
  writable :: "string \<Rightarrow> bool"

definition set_path :: "library \<Rightarrow> string option \<Rightarrow> library" where
  "set_path lib path = (case path of None \<Rightarrow> lib | Some p \<Rightarrow> lib\<lparr> file_path := p \<rparr>)"

text \<open>\<^verbatim>\<open>Library.save_to_file\<close>: a failing \<^verbatim>\<open>open\<close> raises out of the method.\<close>

definition save_to_file ::
  "library \<Rightarrow> string option \<Rightarrow> filesystem \<Rightarrow> (error + unit) \<times> library \<times> filesystem" where
  "save_to_file lib path fs =
     (let lib1 = set_path lib path;
          data = \<lparr> doc_name = Some (name lib1), doc_books = Some (map to_dict (books lib1)) \<rparr>
      in if writable fs (file_path lib1)
         then (Inr (), lib1,
               fs\<lparr> entries := (entries fs)(file_path lib1 \<mapsto> Readable (Document data)) \<rparr>)
         else (Inl OSError, lib1, fs))"

text \<open>
  \<^verbatim>\<open>Library.load_from_file\<close>. Both \<^verbatim>\<open>except\<close> clauses call \<^verbatim>\<open>st.error\<close> and fall
  off the end of the method, so every call returns normally: the first component of
  the result is always \<open>Inr ()\<close>, and the calls of \<^verbatim>\<open>st.error\<close> are the third. The name
  is assigned before the books are built, so a document whose books cannot be built
  changes the name only.
\<close>

datatype st_error = Not_a_valid_JSON_file string | Error_loading_library error

fun from_dicts :: "int \<Rightarrow> book_doc list \<Rightarrow> error + book list" where
  "from_dicts today [] = Inr []"
| "from_dicts today (book_data # rest) =
     (case from_dict today book_data of
        Inl e \<Rightarrow> Inl e
      | Inr b \<Rightarrow> (case from_dicts today rest of Inl e \<Rightarrow> Inl e | Inr bs \<Rightarrow> Inr (b # bs)))"

definition load_from_file ::
  "int \<Rightarrow> library \<Rightarrow> string option \<Rightarrow> filesystem \<Rightarrow> (error + unit) \<times> library \<times> st_error list" where
  "load_from_file today lib path fs =
     (let lib1 = set_path lib path
      in case entries fs (file_path lib1) of
           None \<Rightarrow> (Inr (), lib1, [])
         | Some Unreadable \<Rightarrow> (Inr (), lib1, [Error_loading_library OSError])
         | Some (Readable Not_JSON) \<Rightarrow> (Inr (), lib1, [Not_a_valid_JSON_file (file_path lib1)])
         | Some (Readable Not_an_object) \<Rightarrow>
             (Inr (), lib1, [Error_loading_library AttributeError])
         | Some (Readable (Document data)) \<Rightarrow>
             (let lib2 = lib1\<lparr> name := get_or (doc_name data) ''My Personal Library'' \<rparr>
              in case from_dicts today (get_or (doc_books data) []) of
                   Inl e \<Rightarrow> (Inr (), lib2, [Error_loading_library e])
                 | Inr bs \<Rightarrow> (Inr (), lib2\<lparr> books := bs \<rparr>, [])))"

subsection \<open>Floating point\<close>

text \<open>
  A Python \<^verbatim>\<open>float\<close> is an IEEE 754 double. A finite double is a sign and a
  magnitude \<open>mantissa * 2 ^ exponent\<close>; the mantissa is kept odd (or 0, with exponent
  0), so that every number is written in one way, the way
  \<^verbatim>\<open>float.as_integer_ratio()\<close> gives it. The two zeros differ in the sign.

  \<open>nearest_double neg n d\<close> is the double nearest to the quotient of the naturals \<open>n\<close>
  and \<open>d\<close>, ties going to the even mantissa of 53 bits: \<open>binade\<close> is the exponent of
  the power of two at or below the quotient, never taken below that of the smallest
  normal number, and the quotient is rounded to a multiple of the unit 52 binary
  places below it. A result of 2 to the 1024 or more does not exist: that is the
  \<^verbatim>\<open>OverflowError\<close> of both operations below.
\<close>

record double =
  negative :: bool
  mantissa :: nat
  exponent :: int

fun bit_length :: "nat \<Rightarrow> nat" where
  "bit_length n = (if n = 0 then 0 else Suc (bit_length (n div 2)))"

declare bit_length.simps [simp del]

definition round_half_even :: "nat \<Rightarrow> nat \<Rightarrow> nat" where
  "round_half_even n d =
     (let q = n div d; r = n mod d
      in if 2 * r < d then q else if 2 * r > d then q + 1 else if even q then q else q + 1)"

definition binade :: "nat \<Rightarrow> nat \<Rightarrow> int" where
  "binade n d =
     (let k = int (bit_length n) - int (bit_length d)
      in if (if 0 \<le> k then d * 2 ^ nat k \<le> n else d \<le> n * 2 ^ nat (- k)) then k else k - 1)"

fun odd_mantissa :: "nat \<Rightarrow> int \<Rightarrow> nat \<times> int" where
  "odd_mantissa m e =
     (if m = 0 then (0, 0) else if even m then odd_mantissa (m div 2) (e + 1) else (m, e))"

declare odd_mantissa.simps [simp del]

definition nearest_double :: "bool \<Rightarrow> nat \<Rightarrow> nat \<Rightarrow> error + double" where
  "nearest_double neg n d =
     (if n = 0 then Inr \<lparr> negative = neg, mantissa = 0, exponent = 0 \<rparr>
      else
        let e = max (binade n d) (- 1022);
            p = e - 52;
            m = (if p \<le> 0 then round_half_even (n * 2 ^ nat (- p)) d
                 else round_half_even n (d * 2 ^ nat p))
        in if 0 \<le> p \<and> 2 ^ 1024 \<le> m * 2 ^ nat p then Inl OverflowError
           else (case odd_mantissa m p of
                   (m', e') \<Rightarrow> Inr \<lparr> negative = neg, mantissa = m', exponent = e' \<rparr>))"

text \<open>
  \<^verbatim>\<open>a / b\<close> on two integers: the double nearest to the quotient, negative when
  exactly one of the two is.
\<close>

definition truediv :: "int \<Rightarrow> int \<Rightarrow> error + double" where
  "truediv a b =
     (if b = 0 then Inl ZeroDivisionError
      else nearest_double ((a < 0) \<noteq> (b < 0)) (nat \<bar>a\<bar>) (nat \<bar>b\<bar>))"

text \<open>
  \<^verbatim>\<open>round(x, 2)\<close> on a double: the exact value of \<open>x\<close> times 100 is rounded to
  an integer, ties going to the even one, and the result is the double nearest to
  that integer divided by 100, with the sign of \<open>x\<close>.
\<close>

definition round2 :: "double \<Rightarrow> error + double" where
  "round2 x =
     nearest_double (negative x)
       (if 0 \<le> exponent x then mantissa x * 100 * 2 ^ nat (exponent x)
        else round_half_even (mantissa x * 100) (2 ^ nat (- exponent x)))
       100"

subsection \<open>Statistics\<close>

text \<open>
  \<^verbatim>\<open>Library.get_statistics\<close>. A counting dictionary is an association list in
  insertion order; \<open>bump\<close> is \<^verbatim>\<open>d[k] = d.get(k, 0) + 1\<close>. The keys of the rating
  histogram are the integers and the string \<^verbatim>\<open>"unrated"\<close>. The average is a Python
  \<^verbatim>\<open>int\<close> (the initial 0) or a \<^verbatim>\<open>float\<close>. \<open>truthy\<close> is the test
  \<^verbatim>\<open>if book.year:\<close> on an optional integer: \<^verbatim>\<open>None\<close> and 0 are false. The only
  statement that can raise is the one that computes the average.
\<close>

fun bump :: "'k \<Rightarrow> ('k \<times> nat) list \<Rightarrow> ('k \<times> nat) list" where
  "bump k [] = [(k, 1)]"
| "bump k ((k', c) # kvs) = (if k' = k then (k', c + 1) # kvs else (k', c) # bump k kvs)"

definition sorted_by_count :: "('k \<times> nat) list \<Rightarrow> ('k \<times> nat) list" where
  "sorted_by_count kvs = sort_key (\<lambda>kv. - int (snd kv)) kvs"

definition truthy :: "int option \<Rightarrow> int option" where
  "truthy v = (case v of None \<Rightarrow> None | Some i \<Rightarrow> if i = 0 then None else Some i)"

datatype rating_key = Stars int | Unrated

datatype number = PyInt int | PyFloat double

record statistics =
  total_books :: nat
  available_books :: nat
  borrowed_books :: nat
  genres :: "(string \<times> nat) list"
  authors :: "(string \<times> nat) list"
  years :: "(int \<times> nat) list"
  ratings :: "(rating_key \<times> nat) list"
  tag_counts :: "(string \<times> nat) list"
  avg_rating :: number
  oldest_book :: "(string \<times> int) option"
  newest_book :: "(string \<times> int) option"

definition initial_statistics :: "book list \<Rightarrow> statistics" where
  "initial_statistics bs =
     \<lparr> total_books = length bs,
       available_books = length (filter (\<lambda>b. status b = ''Available'') bs),
       borrowed_books = length (filter (\<lambda>b. status b = ''Borrowed'') bs),
       genres = [], authors = [], years = [],
       ratings = [(Stars 1, 0), (Stars 2, 0), (Stars 3, 0), (Stars 4, 0), (Stars 5, 0),
                  (Unrated, 0)],
       tag_counts = [], avg_rating = PyInt 0, oldest_book = None, newest_book = None \<rparr>"

definition count_genre :: "book \<Rightarrow> statistics \<Rightarrow> statistics" where
  "count_genre b stats =
     (if genre b \<noteq> '''' then stats\<lparr> genres := bump (genre b) (genres stats) \<rparr> else stats)"

definition count_author :: "book \<Rightarrow> statistics \<Rightarrow> statistics" where
  "count_author b stats = stats\<lparr> authors := bump (author b) (authors stats) \<rparr>"

definition count_year :: "book \<Rightarrow> statistics \<Rightarrow> statistics" where
  "count_year b stats =
     (case truthy (year b) of
        None \<Rightarrow> stats
      | Some y \<Rightarrow>
          (let stats1 = stats\<lparr> years := bump y (years stats) \<rparr>;
               stats2 = (case oldest_book stats1 of
                           None \<Rightarrow> stats1\<lparr> oldest_book := Some (title b, y) \<rparr>
                         | Some oldest \<Rightarrow>
                             if y < snd oldest then stats1\<lparr> oldest_book := Some (title b, y) \<rparr>
                             else stats1)
           in case newest_book stats2 of
                None \<Rightarrow> stats2\<lparr> newest_book := Some (title b, y) \<rparr>
              | Some newest \<Rightarrow>
                  if y > snd newest then stats2\<lparr> newest_book := Some (title b, y) \<rparr>
                  else stats2))"

text \<open>The loop carries \<^verbatim>\<open>total_rating\<close> and \<^verbatim>\<open>rated_books\<close> beside the dictionary.\<close>

definition count_rating ::
  "book \<Rightarrow> statistics \<times> int \<times> nat \<Rightarrow> statistics \<times> int \<times> nat" where
  "count_rating b acc =
     (case acc of
        (stats, total_rating, rated_books) \<Rightarrow>
          (case truthy (rating b) of
             Some r \<Rightarrow>
               (stats\<lparr> ratings := bump (Stars r) (ratings stats) \<rparr>,
                total_rating + r, rated_books + 1)
           | None \<Rightarrow>
               (stats\<lparr> ratings := bump Unrated (ratings stats) \<rparr>, total_rating, rated_books)))"

definition count_tags :: "book \<Rightarrow> statistics \<Rightarrow> statistics" where
  "count_tags b stats =
     stats\<lparr> tag_counts := foldl (\<lambda>counts tag. bump tag counts) (tag_counts stats) (tags b) \<rparr>"

definition count_book ::
  "statistics \<times> int \<times> nat \<Rightarrow> book \<Rightarrow> statistics \<times> int \<times> nat" where
  "count_book acc b =
     (case acc of
        (stats, total_rating, rated_books) \<Rightarrow>
          (case count_rating b (count_year b (count_author b (count_genre b stats)),
                                total_rating, rated_books) of
             (stats', total_rating', rated_books') \<Rightarrow>
               (count_tags b stats', total_rating', rated_books')))"

text \<open>
  \<^verbatim>\<open>round(total_rating / rated_books, 2)\<close>: the division and then the rounding,
  either of which may raise.
\<close>

definition rounded_quotient :: "int \<Rightarrow> int \<Rightarrow> error + double" where
  "rounded_quotient total_rating rated_books =
     (case truediv total_rating rated_books of Inl e \<Rightarrow> Inl e | Inr x \<Rightarrow> round2 x)"

definition sort_histograms :: "statistics \<Rightarrow> statistics" where
  "sort_histograms stats =
     stats\<lparr> genres := sorted_by_count (genres stats),
            authors := sorted_by_count (authors stats),
            years := sorted_by_count (years stats),
            tag_counts := sorted_by_count (tag_counts stats) \<rparr>"

definition get_statistics :: "library \<Rightarrow> error + statistics" where
  "get_statistics lib =
     (if books lib = []
      then Inr \<lparr> total_books = 0, available_books = 0, borrowed_books = 0,
                 genres = [], authors = [], years = [],
                 ratings = [(Stars 1, 0), (Stars 2, 0), (Stars 3, 0), (Stars 4, 0),
                            (Stars 5, 0), (Unrated, 0)],
                 tag_counts = [], avg_rating = PyInt 0, oldest_book = None,
                 newest_book = None \<rparr>
      else
        (case foldl count_book (initial_statistics (books lib), 0, 0) (books lib) of
           (stats, total_rating, rated_books) \<Rightarrow>
             if rated_books > 0
             then (case rounded_quotient total_rating (int rated_books) of
                     Inl e \<Rightarrow> Inl e
                   | Inr average \<Rightarrow> Inr (sort_histograms (stats\<lparr> avg_rating := PyFloat average \<rparr>)))
             else Inr (sort_histograms stats)))"

subsection \<open>The form that adds a book\<close>

text \<open>
  The check at the head of the submit branch of \<^verbatim>\<open>add_edit_book\<close>: it reports the
  first required field that is empty and returns before any \<^verbatim>\<open>Book\<close> is built.
\<close>

definition required_fields :: "string \<Rightarrow> string \<Rightarrow> string option" where
  "required_fields t a =
     (if t = '''' then Some ''Title is required.''
      else if a = '''' then Some ''Author is required.''
      else None)"

subsection \<open>The lending invariant and histories of calls\<close>

text \<open>
  The invariant of the data model: the status is \<open>Borrowed\<close> exactly when the
  borrower, the borrowing date and the due date are all non-empty, and \<open>Available\<close>
  exactly when all three are empty.
\<close>

definition lending_invariant :: "book \<Rightarrow> bool" where
  "lending_invariant b =
     (((status b = ''Borrowed'') =
         (borrowed_by b \<noteq> '''' \<and> borrowed_date b \<noteq> '''' \<and> due_date b \<noteq> '''')) \<and>
      ((status b = ''Available'') =
         (borrowed_by b = '''' \<and> borrowed_date b = '''' \<and> due_date b = '''')))"

text \<open>
  A history is a list of calls on one book: \<open>lend\<close> (with the reading of the clock at
  the call), \<open>return_book\<close>, and the assignments \<open>update_book\<close> makes to the book.
  \<open>after_call\<close> is the book as the call leaves it, whether it returned or raised.
\<close>

datatype call = Lend int string int | Return_book | Update "kwarg list"

fun after_call :: "book \<Rightarrow> call \<Rightarrow> book" where
  "after_call b (Lend today borrower days) = snd (lend today b borrower days)"
| "after_call b Return_book = snd (return_book b)"
| "after_call b (Update kwargs) = foldl setattr_book b kwargs"

definition after_calls :: "book \<Rightarrow> call list \<Rightarrow> book" where
  "after_calls b cs = foldl after_call b cs"

text \<open>
  The calls that the form of the user interface makes: it lends to a borrower with a
  name, for a due date that exists, and its update sets none of the status, the
  borrower and the two dates.
\<close>

fun sets_lending_state :: "kwarg \<Rightarrow> bool" where
  "sets_lending_state (Kw_status v) = True"
| "sets_lending_state (Kw_borrowed_by v) = True"
| "sets_lending_state (Kw_borrowed_date v) = True"
| "sets_lending_state (Kw_due_date v) = True"
| "sets_lending_state kw = False"

fun form_call :: "call \<Rightarrow> bool" where
  "form_call (Lend today borrower days) = (borrower \<noteq> '''' \<and> representable today days)"
| "form_call Return_book = True"
| "form_call (Update kwargs) = (\<not> list_ex sets_lending_state kwargs)"

subsection \<open>Reading the results of a filter\<close>

text \<open>
  \<open>ids_where P lib\<close> are the IDs (positions) of the books of the library that satisfy
  \<open>P\<close>, in ascending order; \<open>present_and P v\<close> says that the optional integer \<open>v\<close> is
  present and satisfies \<open>P\<close>.
\<close>

definition ids_where :: "(book \<Rightarrow> bool) \<Rightarrow> library \<Rightarrow> nat list" where
  "ids_where P lib = map fst (filter (\<lambda>ib. P (snd ib)) (enumerate 0 (books lib)))"

definition present_and :: "(int \<Rightarrow> bool) \<Rightarrow> int option \<Rightarrow> bool" where
  "present_and P v = (case v of None \<Rightarrow> False | Some i \<Rightarrow> P i)"

subsection \<open>Reading a serialization and the statistics\<close>

text \<open>
  \<open>reserialize\<close> deserializes a dictionary and serializes the book again.
  \<open>rated_ratings\<close> are the ratings that the loop of \<open>get_statistics\<close> counts as
  ratings, in the order of the books: a rating of 0 counts as none, as in the form
  (``0 = Not rated''). \<open>present_ratings\<close> are the ratings that are not \<^verbatim>\<open>None\<close>.
\<close>

definition reserialize :: "int \<Rightarrow> book_doc \<Rightarrow> error + book_doc" where
  "reserialize today data =
     (case from_dict today data of Inl e \<Rightarrow> Inl e | Inr b \<Rightarrow> Inr (to_dict b))"

definition rated_ratings :: "book list \<Rightarrow> int list" where
  "rated_ratings bs = List.map_filter (\<lambda>b. truthy (rating b)) bs"

definition present_ratings :: "book list \<Rightarrow> int list" where
  "present_ratings bs = List.map_filter rating bs"

subsection \<open>Example objects\<close>

text \<open>
  Books and libraries that the evaluated examples below share. The clock reads
  3 November 2026, the day with ordinal 739923.
\<close>

definition dune :: book where
  "dune = Book_default 739923 ''Dune'' ''Herbert''"

definition dune_lent :: book where
  "dune_lent = dune\<lparr> status := ''Borrowed'', borrowed_by := ''Ann'',
                     borrowed_date := ''2026-11-03'', due_date := ''2026-11-17'' \<rparr>"

definition dune_history :: "call list" where
  "dune_history =
     [Lend 739923 ''Ann'' 14, Update [Kw_rating (Some 5), Kw_tags [''sf'']], Return_book,
      Return_book, Lend 739930 ''Bob'' 7, Lend 739931 ''Cy'' 7]"

definition no_keys :: book_doc where
  "no_keys =
     \<lparr> doc_title = None, doc_author = None, doc_isbn = None, doc_genre = None,
       doc_year = None, doc_publisher = None, doc_pages = None, doc_description = None,
       doc_location = None, doc_status = None, doc_rating = None, doc_date_added = None,
       doc_borrowed_by = None, doc_borrowed_date = None, doc_due_date = None,
       doc_tags = None \<rparr>"

definition born_borrowed :: book where
  "born_borrowed =
     Book_init 739923 ''Dune'' ''Herbert'' '''' '''' None '''' None '''' ''Shelf'' ''Borrowed''
       None None None"

definition dune_library :: library where
  "dune_library = (Library_init ''My Personal Library'')\<lparr> books := [dune] \<rparr>"


definition emma :: book where
  "emma =
     Book_init 739923 ''Emma'' ''Austen'' '''' ''Novel'' (Some 1815) '''' None '''' ''Shelf''
       ''Available'' (Some 4) None None"

definition shelf :: library where
  "shelf = (Library_init ''My Personal Library'')\<lparr> books := [dune, emma] \<rparr>"

definition rated_shelf :: library where
  "rated_shelf = (Library_init ''My Personal Library'')\<lparr> books := [emma] \<rparr>"

text \<open>
  Three rated books beside the unrated one; forty copies of one book, 37 rated 1 and
  3 rated 2, whose mean 1.075 is no double; and a book rated 2 to the 1024.
\<close>

definition persuasion :: book where
  "persuasion =
     Book_init 739923 ''Persuasion'' ''Austen'' '''' ''Novel'' (Some 1817) '''' None ''''
       ''Shelf'' ''Available'' (Some 5) None None"

definition walden :: book where
  "walden =
     Book_init 739923 ''Walden'' ''Thoreau'' '''' '''' (Some 1854) '''' None '''' ''Shelf''
       ''Available'' (Some 4) None None"

definition rated_three :: library where
  "rated_three =
     (Library_init ''My Personal Library'')\<lparr> books := [emma, dune, persuasion, walden] \<rparr>"

definition forty :: library where
  "forty =
     (Library_init ''My Personal Library'')
       \<lparr> books := replicate 37 (dune\<lparr> rating := Some 1 \<rparr>) @
                   replicate 3 (dune\<lparr> rating := Some 2 \<rparr>) \<rparr>"

definition huge_rating :: int where
  "huge_rating = 2 ^ 1024"

definition overrated :: library where
  "overrated =
     (Library_init ''My Personal Library'')\<lparr> books := [dune\<lparr> rating := Some huge_rating \<rparr>] \<rparr>"

text \<open>
  A file system with a file that is not JSON, a file that holds a JSON list, and a
  document whose only book has no title; every path but the empty one can be written.
\<close>

definition disk :: filesystem where
  "disk =
     \<lparr> entries =
         [''bad.json'' \<mapsto> Readable Not_JSON,
          ''list.json'' \<mapsto> Readable Not_an_object,
          ''half.json'' \<mapsto> Readable (Document
             \<lparr> doc_name = Some ''Other'',
               doc_books = Some [no_keys\<lparr> doc_author := Some ''Herbert'' \<rparr>] \<rparr>)],
       writable = (\<lambda>p. p \<noteq> '''') \<rparr>"


section \<open>Properties\<close>

subsection \<open>Evaluation of the helper functions\<close>

lemmas date_eval = strftime_def ord2ymd_def Let_def days_before_month_def days_in_month_def
  zfill_def str_int_def str_nat.simps digit_char_def

lemma strftime_examples:
  "strftime 739923 = ''2026-11-03''"
  "strftime 739937 = ''2026-11-17''"
  "strftime 1 = ''1-01-01''"
  "strftime 3652059 = ''9999-12-31''"
  by (simp_all add: date_eval)

lemma strftime_not_empty: "strftime d \<noteq> ''''"
  by (simp add: strftime_def split: prod.splits)

lemma dune_fields:
  "status dune = ''Available''" "borrowed_by dune = ''''" "borrowed_date dune = ''''"
  "due_date dune = ''''" "title dune = ''Dune''" "author dune = ''Herbert''"
  by (simp_all add: dune_def Book_default_def Book_init_def)

subsection \<open>Lending\<close>

text \<open>
  C1 (lending state machine), as the code has it. For a book whose status is
  \<open>Available\<close>, \<open>lend\<close> with a number of days whose due date is a date that
  \<^verbatim>\<open>datetime\<close> can hold sets the status to \<open>Borrowed\<close>, the borrower to the argument,
  the borrowing date to today and the due date to the day \<open>days\<close> after today (14
  days after today when \<open>days\<close> is left out), the two dates written as
  \<^verbatim>\<open>strftime("%Y-%m-%d")\<close> writes them. For a book whose status is \<open>Borrowed\<close>,
  \<open>return_book\<close> sets the
  status to \<open>Available\<close> and empties the borrower and both dates. \<open>lend\<close> on a book
  that is not \<open>Available\<close> and \<open>return_book\<close> on a book that is not \<open>Borrowed\<close>
  raise \<^verbatim>\<open>ValueError\<close> and leave the whole book as it was.
\<close>

theorem lending_state_machine:
  "(status b = ''Available'' \<and> representable today days \<longrightarrow>
      lend today b borrower days =
        (Inr (), b\<lparr> status := ''Borrowed'', borrowed_by := borrower,
                    borrowed_date := strftime today, due_date := strftime (today + days) \<rparr>)) \<and>
   (status b = ''Available'' \<and> representable today 14 \<longrightarrow>
      lend_default today b borrower =
        (Inr (), b\<lparr> status := ''Borrowed'', borrowed_by := borrower,
                    borrowed_date := strftime today, due_date := strftime (today + 14) \<rparr>)) \<and>
   (status b = ''Borrowed'' \<longrightarrow>
      return_book b =
        (Inr (), b\<lparr> status := ''Available'', borrowed_by := '''', borrowed_date := '''',
                    due_date := '''' \<rparr>)) \<and>
   (status b \<noteq> ''Available'' \<longrightarrow>
      lend today b borrower days =
        (Inl (ValueError (''Book is not available. Current status: '' @ status b)), b)) \<and>
   (status b \<noteq> ''Borrowed'' \<longrightarrow>
      return_book b =
        (Inl (ValueError (''Book is not borrowed. Current status: '' @ status b)), b))"
  by (simp add: lend_def lend_default_def return_book_def Let_def)

text \<open>
  The lending cycle on the example book: lent to Ann for 14 days on 2026-11-03 it is
  due on 2026-11-17; returned, it is the book it was; a second \<open>lend\<close> and a
  \<open>return_book\<close> of the book on the shelf are refused. The two ends of the range
  of due dates: 739922 days back the book is due on the first day, written
  \<^verbatim>\<open>1-01-01\<close>, and 2912136 days ahead on 9999-12-31.
\<close>

theorem lending_state_machine_witness:
  "status dune = ''Available'' \<and> representable 739923 14 \<and>
   lend 739923 dune ''Ann'' 14 = (Inr (), dune_lent) \<and>
   lend_default 739923 dune ''Ann'' = (Inr (), dune_lent) \<and>
   status dune_lent = ''Borrowed'' \<and>
   return_book dune_lent = (Inr (), dune) \<and>
   lend 739923 dune_lent ''Bob'' 7 =
     (Inl (ValueError ''Book is not available. Current status: Borrowed''), dune_lent) \<and>
   return_book dune =
     (Inl (ValueError ''Book is not borrowed. Current status: Available''), dune) \<and>
   representable 739923 (- 739922) \<and>
   lend 739923 dune ''Ann'' (- 739922) =
     (Inr (), dune\<lparr> status := ''Borrowed'', borrowed_by := ''Ann'',
                      borrowed_date := ''2026-11-03'', due_date := ''1-01-01'' \<rparr>) \<and>
   representable 739923 2912136 \<and>
   lend 739923 dune ''Ann'' 2912136 =
     (Inr (), dune\<lparr> status := ''Borrowed'', borrowed_by := ''Ann'',
                      borrowed_date := ''2026-11-03'', due_date := ''9999-12-31'' \<rparr>)"
proof -
  have avail: "status dune = ''Available''" "representable 739923 14"
    by (simp_all add: dune_fields representable_def)
  have range: "representable 739923 (- 739922)" "representable 739923 2912136"
    by (simp_all add: representable_def)
  from lending_state_machine [of dune 739923 "- 739922" "''Ann''"] avail range
  have first_day: "lend 739923 dune ''Ann'' (- 739922) =
     (Inr (), dune\<lparr> status := ''Borrowed'', borrowed_by := ''Ann'',
                      borrowed_date := ''2026-11-03'', due_date := ''1-01-01'' \<rparr>)"
    by (simp add: strftime_examples)
  from lending_state_machine [of dune 739923 2912136 "''Ann''"] avail range
  have last_day: "lend 739923 dune ''Ann'' 2912136 =
     (Inr (), dune\<lparr> status := ''Borrowed'', borrowed_by := ''Ann'',
                      borrowed_date := ''2026-11-03'', due_date := ''9999-12-31'' \<rparr>)"
    by (simp add: strftime_examples)
  have lent: "status dune_lent = ''Borrowed''"
    by (simp add: dune_lent_def)
  note on_shelf = lending_state_machine [of dune 739923 14 "''Ann''"]
  note on_loan = lending_state_machine [of dune_lent 739923 7 "''Bob''"]
  from on_shelf avail have "lend 739923 dune ''Ann'' 14 = (Inr (), dune_lent)"
    and "lend_default 739923 dune ''Ann'' = (Inr (), dune_lent)"
    and "return_book dune =
           (Inl (ValueError ''Book is not borrowed. Current status: Available''), dune)"
    by (simp_all add: dune_lent_def strftime_examples)
  moreover from on_loan lent dune_fields have "return_book dune_lent = (Inr (), dune)"
    and "lend 739923 dune_lent ''Bob'' 7 =
           (Inl (ValueError ''Book is not available. Current status: Borrowed''), dune_lent)"
    by (simp_all add: dune_lent_def)
  ultimately show ?thesis using avail lent range first_day last_day by simp
qed

text \<open>
  Without the bound on the due date the first part fails: three million days from
  2026-11-03 is past the year 9999, the addition raises \<^verbatim>\<open>OverflowError\<close>, and the
  book is left \<open>Borrowed\<close> with no due date.
\<close>

theorem lend_overflow_counterexample:
  "status dune = ''Available'' \<and>
   lend 739923 dune ''Ann'' 3000000 =
     (Inl OverflowError,
      dune\<lparr> status := ''Borrowed'', borrowed_by := ''Ann'', borrowed_date := ''2026-11-03'' \<rparr>) \<and>
   due_date (snd (lend 739923 dune ''Ann'' 3000000)) = ''''"
  by (simp add: lend_def representable_def dune_fields strftime_examples)

subsection \<open>The lending invariant\<close>

lemma setattr_keeps_lending_state:
  "\<not> sets_lending_state kw \<Longrightarrow>
     status (setattr_book b kw) = status b \<and> borrowed_by (setattr_book b kw) = borrowed_by b \<and>
     borrowed_date (setattr_book b kw) = borrowed_date b \<and>
     due_date (setattr_book b kw) = due_date b"
  by (cases kw) simp_all

lemma setattrs_keep_lending_state:
  "\<not> list_ex sets_lending_state kwargs \<Longrightarrow>
     status (foldl setattr_book b kwargs) = status b \<and>
     borrowed_by (foldl setattr_book b kwargs) = borrowed_by b \<and>
     borrowed_date (foldl setattr_book b kwargs) = borrowed_date b \<and>
     due_date (foldl setattr_book b kwargs) = due_date b"
proof (induction kwargs arbitrary: b)
  case Nil
  then show ?case by simp
next
  case (Cons kw kwargs)
  then have "\<not> sets_lending_state kw" and "\<not> list_ex sets_lending_state kwargs"
    by simp_all
  with Cons.IH [of "setattr_book b kw"] setattr_keeps_lending_state [of kw b]
  show ?case by simp
qed

lemma invariant_after_call:
  assumes "lending_invariant b" and "form_call c"
  shows "lending_invariant (after_call b c)"
proof (cases c)
  case (Lend today borrower days)
  with assms show ?thesis
    by (simp add: lend_def Let_def lending_invariant_def strftime_not_empty)
next
  case Return_book
  with assms show ?thesis
    by (simp add: return_book_def lending_invariant_def)
next
  case (Update kwargs)
  with assms setattrs_keep_lending_state [of kwargs b] show ?thesis
    by (simp add: lending_invariant_def)
qed

lemma invariant_after_calls:
  "lending_invariant b \<Longrightarrow> list_all form_call cs \<Longrightarrow> lending_invariant (after_calls b cs)"
  unfolding after_calls_def
  by (induction cs arbitrary: b) (simp_all add: invariant_after_call)

lemma from_dict_to_dict: "from_dict today (to_dict b) = Inr b"
  by (simp add: from_dict_def to_dict_def Book_init_def get_or_def)

text \<open>
  C2 (lending-state invariant), as the code keeps it. A book constructed with the
  status \<open>Available\<close> satisfies the invariant, and so does a book deserialized from
  the serialization of a book that satisfies it; from such a book, every history of
  \<open>lend\<close> calls with a non-empty borrower and a due date that exists, of
  \<open>return_book\<close> calls, and of updates that assign none of \<^verbatim>\<open>status\<close>,
  \<^verbatim>\<open>borrowed_by\<close>, \<^verbatim>\<open>borrowed_date\<close> and \<^verbatim>\<open>due_date\<close> leaves a book that satisfies
  it, whether the calls return or raise.
\<close>

theorem lending_invariant_kept:
  "(list_all form_call cs \<longrightarrow>
      lending_invariant
        (after_calls (Book_init today t a i g y p n d l ''Available'' r added tgs) cs)) \<and>
   (lending_invariant b0 \<and> from_dict today (to_dict b0) = Inr b \<and> list_all form_call cs \<longrightarrow>
      lending_invariant (after_calls b cs))"
proof -
  have "lending_invariant (Book_init today t a i g y p n d l ''Available'' r added tgs)"
    by (simp add: lending_invariant_def Book_init_def)
  then show ?thesis
    using invariant_after_calls from_dict_to_dict by auto
qed

text \<open>
  A history on the example book: lent, updated, returned, returned again (refused),
  lent again, lent once more (refused). The same history on the book read back from
  the serialization of the lent book.
\<close>

theorem lending_invariant_kept_witness:
  "list_all form_call dune_history \<and>
   lending_invariant (after_calls dune dune_history) \<and>
   lending_invariant dune_lent \<and>
   from_dict 739923 (to_dict dune_lent) = Inr dune_lent \<and>
   lending_invariant (after_calls dune_lent dune_history)"
proof -
  have calls: "list_all form_call dune_history"
    by (simp add: dune_history_def representable_def)
  have lent: "lending_invariant dune_lent"
    by (simp add: lending_invariant_def dune_lent_def)
  have reread: "from_dict 739923 (to_dict dune_lent) = Inr dune_lent"
    by (rule from_dict_to_dict)
  have born: "dune =
      Book_init 739923 ''Dune'' ''Herbert'' '''' '''' None '''' None '''' ''Shelf'' ''Available''
        None None None"
    by (simp add: dune_def Book_default_def)
  note kept = lending_invariant_kept [of dune_history 739923 "''Dune''" "''Herbert''" "''''"
      "''''" None "''''" None "''''" "''Shelf''" None None None dune_lent dune_lent]
  from kept calls lent reread born show ?thesis by simp
qed

text \<open>
  The invariant is not one of every book the code produces. A book constructed with
  the status \<open>Borrowed\<close> has no borrower; a document that gives only title, author
  and the status \<open>Borrowed\<close> deserializes to the same book; \<open>update_book\<close> with the
  keyword \<^verbatim>\<open>status\<close> makes the book on the shelf \<open>Borrowed\<close> with no borrower; and
  \<open>lend\<close> to the empty name succeeds and leaves the borrower empty.
\<close>

theorem lending_invariant_counterexample:
  "\<not> lending_invariant born_borrowed \<and>
   from_dict 739923
     (no_keys\<lparr> doc_title := Some ''Dune'', doc_author := Some ''Herbert'',
               doc_status := Some ''Borrowed'', doc_date_added := Some ''2026-11-03'' \<rparr>) =
     Inr born_borrowed \<and>
   update_book dune_library 0 [Kw_status ''Borrowed''] =
     (Inr (), dune_library\<lparr> books := [dune\<lparr> status := ''Borrowed'' \<rparr>] \<rparr>) \<and>
   \<not> lending_invariant (dune\<lparr> status := ''Borrowed'' \<rparr>) \<and>
   fst (lend 739923 dune '''' 14) = Inr () \<and>
   \<not> lending_invariant (snd (lend 739923 dune '''' 14))"
proof -
  have "\<not> lending_invariant born_borrowed"
    by (simp add: lending_invariant_def born_borrowed_def Book_init_def)
  moreover have "from_dict 739923
     (no_keys\<lparr> doc_title := Some ''Dune'', doc_author := Some ''Herbert'',
               doc_status := Some ''Borrowed'', doc_date_added := Some ''2026-11-03'' \<rparr>) =
     Inr born_borrowed"
    by (simp add: from_dict_def no_keys_def get_or_def born_borrowed_def Book_init_def
        strftime_examples)
  moreover have "update_book dune_library 0 [Kw_status ''Borrowed''] =
     (Inr (), dune_library\<lparr> books := [dune\<lparr> status := ''Borrowed'' \<rparr>] \<rparr>)"
    by (simp add: update_book_def dune_library_def Library_init_def)
  moreover have "\<not> lending_invariant (dune\<lparr> status := ''Borrowed'' \<rparr>)"
    by (simp add: lending_invariant_def dune_fields)
  moreover have "fst (lend 739923 dune '''' 14) = Inr ()"
    and "\<not> lending_invariant (snd (lend 739923 dune '''' 14))"
    by (simp_all add: lend_def Let_def representable_def dune_fields lending_invariant_def)
  ultimately show ?thesis by simp
qed

subsection \<open>Construction\<close>

text \<open>
  C3 (required fields), as the code has it. Constructing a \<open>Book\<close> never fails: for
  every title and author, the empty string included, the constructor returns a book
  with that title and that author. The check for an empty title or author is made by
  the form that adds a book, before it constructs one: it lets the submission through
  exactly when both are non-empty, and else reports the title first.
\<close>

theorem construction_unchecked:
  "title (Book_init today t a i g y p n d l s r added tgs) = t \<and>
   author (Book_init today t a i g y p n d l s r added tgs) = a \<and>
   (required_fields t a = None) = (t \<noteq> '''' \<and> a \<noteq> '''') \<and>
   (required_fields t a = Some ''Title is required.'') = (t = '''') \<and>
   (required_fields t a = Some ''Author is required.'') = (t \<noteq> '''' \<and> a = '''')"
  by (simp add: Book_init_def required_fields_def)

text \<open>
  The constructor called with an empty title and an empty author returns a book, and
  \<open>add_book\<close> puts it into the empty library.
\<close>

theorem empty_title_counterexample:
  "Book_default 739923 '''' '''' =
     \<lparr> title = '''', author = '''', isbn = '''', genre = '''', year = None, publisher = '''',
       pages = None, description = '''', location = ''Shelf'', status = ''Available'',
       rating = None, date_added = ''2026-11-03'', borrowed_by = '''', borrowed_date = '''',
       due_date = '''', tags = [] \<rparr> \<and>
   add_book (Library_init ''My Personal Library'') (Book_default 739923 '''' '''') =
     (Inr (), (Library_init ''My Personal Library'')\<lparr> books := [Book_default 739923 '''' ''''] \<rparr>)"
  by (simp add: Book_default_def Book_init_def strftime_examples add_book_def Library_init_def)

subsection \<open>Adding a book\<close>






subsection \<open>Searching\<close>

lemma contains_empty: "contains s []"
  by (cases s) simp_all

lemma lower_empty: "lower '''' = ''''"
  by (simp add: lower_def)

lemma only_tags_is_a_list: "field \<noteq> ''tags'' \<Longrightarrow> getattr_book b field \<noteq> Some (PList ts)"
  by (auto simp add: getattr_book_def attributes_def opt_int_def split: if_splits option.splits)

lemma empty_query_matches: "book_matches '''' default_fields b"
  by (simp add: book_matches_def default_fields_def field_matches_def getattr_book_def
      attributes_def contains_empty)

lemma search_from_all:
  "\<forall>b \<in> set bs. book_matches q flds b \<Longrightarrow> search_from i q flds bs = [i..<i + length bs]"
  by (induction bs arbitrary: i) (simp_all add: upt_rec)

text \<open>
  C5 (empty query and empty collection), as the code has it. The empty string occurs
  in every string, so \<open>search_books\<close> with the empty query (and the default fields)
  returns the ID of every book of the library, in ascending order; it is not an
  error. A search over an empty collection returns the empty list, whatever the
  query and the fields.
\<close>

theorem search_empty_query:
  "search_books lib '''' None = [0..<length (books lib)] \<and>
   search_books (lib\<lparr> books := [] \<rparr>) query flds = []"
  by (simp add: search_books_def lower_empty get_or_def search_from_all empty_query_matches)

text \<open>The empty query on the library that holds one book finds that book.\<close>

theorem search_empty_query_counterexample:
  "books dune_library = [dune] \<and> search_books dune_library '''' None = [0]"
  by (simp add: search_books_def lower_empty get_or_def dune_library_def Library_init_def
      book_matches_def default_fields_def field_matches_def getattr_book_def attributes_def
      contains_empty)

subsection \<open>Filtering\<close>

lemma filter_from_enumerate:
  "\<forall>b \<in> set bs. match_kwargs b kwargs = Inr (P b) \<Longrightarrow>
     filter_from i kwargs bs = Inr (map fst (filter (\<lambda>ib. P (snd ib)) (enumerate i bs)))"
  by (induction bs arbitrary: i) simp_all

lemma filter_books_where:
  "(\<And>b. match_kwargs b kwargs = Inr (P b)) \<Longrightarrow> filter_books lib kwargs = Inr (ids_where P lib)"
  by (simp add: filter_books_def ids_where_def filter_from_enumerate)

lemmas match_eval = guarded_def present_and_def getattr_book_def attributes_def Let_def

lemma match_year_from:
  "match_kwargs b [(''year_from'', PInt lo)] = Inr (present_and (\<lambda>y. lo \<le> y) (year b))"
  by (cases "year b") (auto simp add: match_eval split: bool.splits)

lemma match_year_to:
  "match_kwargs b [(''year_to'', PInt hi)] = Inr (present_and (\<lambda>y. y \<le> hi) (year b))"
  by (cases "year b") (auto simp add: match_eval split: bool.splits)

lemma match_year_range:
  "match_kwargs b [(''year_from'', PInt lo), (''year_to'', PInt hi)] =
     Inr (present_and (\<lambda>y. lo \<le> y \<and> y \<le> hi) (year b))"
  by (cases "year b") (auto simp add: match_eval split: bool.splits)

lemma match_rating_from:
  "match_kwargs b [(''rating_from'', PInt lo)] = Inr (present_and (\<lambda>r. lo \<le> r) (rating b))"
  by (cases "rating b") (auto simp add: match_eval split: bool.splits)

lemma match_rating_to:
  "match_kwargs b [(''rating_to'', PInt hi)] = Inr (present_and (\<lambda>r. r \<le> hi) (rating b))"
  by (cases "rating b") (auto simp add: match_eval split: bool.splits)

lemma match_rating_range:
  "match_kwargs b [(''rating_from'', PInt lo), (''rating_to'', PInt hi)] =
     Inr (present_and (\<lambda>r. lo \<le> r \<and> r \<le> hi) (rating b))"
  by (cases "rating b") (auto simp add: match_eval split: bool.splits)

text \<open>
  C6 (ranged filters), as the code has it. The bounds are inclusive, and a book whose
  year is absent is excluded as soon as \<^verbatim>\<open>year_from\<close> or \<^verbatim>\<open>year_to\<close> is
  supplied: the filter returns, in ascending order, exactly the IDs of the books
  whose year is present and at least \<^verbatim>\<open>year_from\<close> and at most \<^verbatim>\<open>year_to\<close>. The same
  holds of the rating with \<^verbatim>\<open>rating_from\<close> and \<^verbatim>\<open>rating_to\<close>.
\<close>

theorem filter_ranges:
  "filter_books lib [(''year_from'', PInt lo)] =
     Inr (ids_where (\<lambda>b. present_and (\<lambda>y. lo \<le> y) (year b)) lib) \<and>
   filter_books lib [(''year_to'', PInt hi)] =
     Inr (ids_where (\<lambda>b. present_and (\<lambda>y. y \<le> hi) (year b)) lib) \<and>
   filter_books lib [(''year_from'', PInt lo), (''year_to'', PInt hi)] =
     Inr (ids_where (\<lambda>b. present_and (\<lambda>y. lo \<le> y \<and> y \<le> hi) (year b)) lib) \<and>
   filter_books lib [(''rating_from'', PInt lo)] =
     Inr (ids_where (\<lambda>b. present_and (\<lambda>r. lo \<le> r) (rating b)) lib) \<and>
   filter_books lib [(''rating_to'', PInt hi)] =
     Inr (ids_where (\<lambda>b. present_and (\<lambda>r. r \<le> hi) (rating b)) lib) \<and>
   filter_books lib [(''rating_from'', PInt lo), (''rating_to'', PInt hi)] =
     Inr (ids_where (\<lambda>b. present_and (\<lambda>r. lo \<le> r \<and> r \<le> hi) (rating b)) lib)"
  by (intro conjI filter_books_where match_year_from match_year_to match_year_range
      match_rating_from match_rating_to match_rating_range)

text \<open>
  On the shelf of two books, \<open>Dune\<close> with neither year nor rating and \<open>Emma\<close> of
  1815 with rating 4, each ranged key alone excludes \<open>Dune\<close> (ID 0), and a bound
  equal to the year or the rating keeps \<open>Emma\<close> (ID 1).
\<close>

theorem filter_absent_year_counterexample:
  "year dune = None \<and> rating dune = None \<and> books shelf = [dune, emma] \<and>
   filter_books shelf [(''year_from'', PInt 1815)] = Inr [1] \<and>
   filter_books shelf [(''year_to'', PInt 1815)] = Inr [1] \<and>
   filter_books shelf [(''rating_from'', PInt 4)] = Inr [1] \<and>
   filter_books shelf [(''rating_to'', PInt 4)] = Inr [1]"
  by (simp add: filter_books_def shelf_def Library_init_def dune_def Book_default_def emma_def
      Book_init_def match_eval)

subsection \<open>Loading\<close>

lemma load_returns: "fst (load_from_file today lib path fs) = Inr ()"
  by (simp add: load_from_file_def Let_def
      split: option.splits entry.splits content.splits sum.splits)

lemma load_file_path:
  "file_path (fst (snd (load_from_file today lib path fs))) = file_path (set_path lib path)"
  by (simp add: load_from_file_def Let_def
      split: option.splits entry.splits content.splits sum.splits)

lemma load_reports_keep_books:
  "snd (snd (load_from_file today lib path fs)) \<noteq> [] \<Longrightarrow>
     books (fst (snd (load_from_file today lib path fs))) = books lib"
  by (auto simp add: load_from_file_def Let_def set_path_def
      split: option.splits entry.splits content.splits sum.splits)

text \<open>
  C7 (loading a missing or corrupt file), as the code has it. \<open>load_from_file\<close> never
  raises. On a path that does not exist it leaves the name and the books untouched
  (\<open>set_path\<close> changes the stored path only) and reports nothing. When the file
  exists but is not JSON, it reports \<^verbatim>\<open>Error: <path> is not a valid JSON file.\<close>
  through \<^verbatim>\<open>st.error\<close> and returns normally to its caller with the name and the
  books untouched; when the file cannot be read or holds JSON that is not an object,
  it reports \<^verbatim>\<open>Error loading library: ...\<close> the same way. Whenever it reports an
  error, the books are the ones the library had.
\<close>

theorem load_failures:
  "fst (load_from_file today lib path fs) = Inr () \<and>
   (entries fs (file_path (set_path lib path)) = None \<longrightarrow>
      load_from_file today lib path fs = (Inr (), set_path lib path, [])) \<and>
   (entries fs (file_path (set_path lib path)) = Some (Readable Not_JSON) \<longrightarrow>
      load_from_file today lib path fs =
        (Inr (), set_path lib path, [Not_a_valid_JSON_file (file_path (set_path lib path))])) \<and>
   (entries fs (file_path (set_path lib path)) = Some (Readable Not_an_object) \<longrightarrow>
      load_from_file today lib path fs =
        (Inr (), set_path lib path, [Error_loading_library AttributeError])) \<and>
   (entries fs (file_path (set_path lib path)) = Some Unreadable \<longrightarrow>
      load_from_file today lib path fs =
        (Inr (), set_path lib path, [Error_loading_library OSError])) \<and>
   (snd (snd (load_from_file today lib path fs)) \<noteq> [] \<longrightarrow>
      books (fst (snd (load_from_file today lib path fs))) = books lib) \<and>
   name (set_path lib path) = name lib \<and> books (set_path lib path) = books lib"
proof (intro conjI)
  show "fst (load_from_file today lib path fs) = Inr ()"
    by (rule load_returns)
  show "snd (snd (load_from_file today lib path fs)) \<noteq> [] \<longrightarrow>
      books (fst (snd (load_from_file today lib path fs))) = books lib"
    by (simp add: load_reports_keep_books)
qed (simp_all add: load_from_file_def Let_def set_path_def split: option.splits)

lemma disk_entries:
  "entries disk ''none.json'' = None"
  "entries disk ''bad.json'' = Some (Readable Not_JSON)"
  "entries disk ''list.json'' = Some (Readable Not_an_object)"
  "writable disk ''none.json''" "\<not> writable disk ''''"
  by (simp_all add: disk_def)

lemma load_half:
  "load_from_file 739923 dune_library (Some ''half.json'') disk =
     (Inr (), dune_library\<lparr> file_path := ''half.json'', name := ''Other'' \<rparr>,
      [Error_loading_library (KeyError ''title'')])"
  by (simp add: load_from_file_def set_path_def disk_def Let_def get_or_def from_dict_def
      no_keys_def)

text \<open>The library of one book loads from the four kinds of path of the example disk.\<close>

theorem load_failures_witness:
  "entries disk ''none.json'' = None \<and>
   load_from_file 739923 dune_library (Some ''none.json'') disk =
     (Inr (), dune_library\<lparr> file_path := ''none.json'' \<rparr>, []) \<and>
   entries disk ''bad.json'' = Some (Readable Not_JSON) \<and>
   load_from_file 739923 dune_library (Some ''bad.json'') disk =
     (Inr (), dune_library\<lparr> file_path := ''bad.json'' \<rparr>,
      [Not_a_valid_JSON_file ''bad.json'']) \<and>
   entries disk ''list.json'' = Some (Readable Not_an_object) \<and>
   load_from_file 739923 dune_library (Some ''list.json'') disk =
     (Inr (), dune_library\<lparr> file_path := ''list.json'' \<rparr>,
      [Error_loading_library AttributeError]) \<and>
   snd (snd (load_from_file 739923 dune_library (Some ''half.json'') disk)) \<noteq> [] \<and>
   books (fst (snd (load_from_file 739923 dune_library (Some ''half.json'') disk))) = [dune]"
proof -
  have reported: "snd (snd (load_from_file 739923 dune_library (Some ''half.json'') disk)) \<noteq> []"
    by (simp add: load_half)
  have shelf: "books dune_library = [dune]"
    by (simp add: dune_library_def)
  from load_failures [of 739923 dune_library "Some ''none.json''" disk] disk_entries
  have "load_from_file 739923 dune_library (Some ''none.json'') disk =
     (Inr (), dune_library\<lparr> file_path := ''none.json'' \<rparr>, [])"
    by (simp add: set_path_def)
  moreover from load_failures [of 739923 dune_library "Some ''bad.json''" disk] disk_entries
  have "load_from_file 739923 dune_library (Some ''bad.json'') disk =
     (Inr (), dune_library\<lparr> file_path := ''bad.json'' \<rparr>, [Not_a_valid_JSON_file ''bad.json''])"
    by (simp add: set_path_def)
  moreover from load_failures [of 739923 dune_library "Some ''list.json''" disk] disk_entries
  have "load_from_file 739923 dune_library (Some ''list.json'') disk =
     (Inr (), dune_library\<lparr> file_path := ''list.json'' \<rparr>,
      [Error_loading_library AttributeError])"
    by (simp add: set_path_def)
  moreover from load_failures [of 739923 dune_library "Some ''half.json''" disk] reported shelf
  have "books (fst (snd (load_from_file 739923 dune_library (Some ''half.json'') disk))) = [dune]"
    by simp
  ultimately show ?thesis using disk_entries reported by simp
qed

text \<open>
  No error reaches the caller. On the file that is not JSON the call returns normally
  with the library as it was; on the document whose book has no title it returns
  normally with the name of the document and the books of the library. And on a path
  that does not exist the stored path is no longer the one it was.
\<close>

theorem load_swallows_counterexample:
  "entries disk ''bad.json'' = Some (Readable Not_JSON) \<and>
   load_from_file 739923 dune_library (Some ''bad.json'') disk =
     (Inr (), dune_library\<lparr> file_path := ''bad.json'' \<rparr>,
      [Not_a_valid_JSON_file ''bad.json'']) \<and>
   load_from_file 739923 dune_library (Some ''half.json'') disk =
     (Inr (), dune_library\<lparr> file_path := ''half.json'', name := ''Other'' \<rparr>,
      [Error_loading_library (KeyError ''title'')]) \<and>
   name dune_library = ''My Personal Library'' \<and>
   entries disk ''none.json'' = None \<and>
   file_path dune_library = ''library_data.json'' \<and>
   load_from_file 739923 dune_library (Some ''none.json'') disk =
     (Inr (), dune_library\<lparr> file_path := ''none.json'' \<rparr>, [])"
  by (simp add: load_half disk_entries)
     (simp add: load_from_file_def set_path_def disk_def dune_library_def Library_init_def)

subsection \<open>Serialization\<close>

text \<open>
  C8 (round-trip stability). For every book whose rating is one of 1 to 5,
  serializing, deserializing and serializing again gives the first serialization.
  (\<open>from_dict_to_dict\<close> above shows more: deserializing the serialization of any
  book gives the book back.)
\<close>

theorem serialization_round_trip:
  "rating b \<in> Some ` {1..5} \<Longrightarrow> reserialize today (to_dict b) = Inr (to_dict b)"
  by (simp add: reserialize_def from_dict_to_dict)

theorem serialization_round_trip_witness:
  "rating emma \<in> Some ` {1..5} \<and> reserialize 739923 (to_dict emma) = Inr (to_dict emma)"
proof -
  have "rating emma \<in> Some ` {1..5}"
    by (simp add: emma_def Book_init_def)
  with serialization_round_trip [of emma 739923] show ?thesis by simp
qed

subsection \<open>The stored path\<close>

text \<open>
  C10 (the path argument overwrites the stored path first). \<open>save_to_file\<close> and
  \<open>load_from_file\<close> called with a path behave as the same call without a path on the
  library whose \<open>file_path\<close> is already that path; afterwards the stored path is the
  argument, also when \<open>save_to_file\<close> raises because the path cannot be written. In
  particular \<open>load_from_file\<close> on a path that does not exist changes nothing but the
  stored path, and a later \<open>save_to_file\<close> without a path writes the unchanged name
  and books to that path.
\<close>

theorem file_path_overwritten:
  "save_to_file lib (Some p) fs = save_to_file (lib\<lparr> file_path := p \<rparr>) None fs \<and>
   load_from_file today lib (Some p) fs =
     load_from_file today (lib\<lparr> file_path := p \<rparr>) None fs \<and>
   file_path (fst (snd (save_to_file lib (Some p) fs))) = p \<and>
   file_path (fst (snd (load_from_file today lib (Some p) fs))) = p \<and>
   (\<not> writable fs p \<longrightarrow>
      save_to_file lib (Some p) fs = (Inl OSError, lib\<lparr> file_path := p \<rparr>, fs)) \<and>
   (entries fs p = None \<longrightarrow>
      load_from_file today lib (Some p) fs = (Inr (), lib\<lparr> file_path := p \<rparr>, [])) \<and>
   (entries fs p = None \<and> writable fs p \<longrightarrow>
      save_to_file (fst (snd (load_from_file today lib (Some p) fs))) None fs =
        (Inr (), lib\<lparr> file_path := p \<rparr>,
         fs\<lparr> entries := (entries fs)(p \<mapsto> Readable (Document
               \<lparr> doc_name = Some (name lib),
                 doc_books = Some (map to_dict (books lib)) \<rparr>)) \<rparr>))"
proof (intro conjI)
  show "file_path (fst (snd (load_from_file today lib (Some p) fs))) = p"
    by (simp add: load_file_path set_path_def)
qed (simp_all add: save_to_file_def load_from_file_def set_path_def Let_def)

text \<open>
  The library of one book, whose stored path is \<^verbatim>\<open>library_data.json\<close>: loading from
  a path that does not exist and saving without a path writes the library there, and
  saving to the empty path raises with the stored path already empty.
\<close>

theorem file_path_overwritten_witness:
  "file_path dune_library = ''library_data.json'' \<and>
   entries disk ''none.json'' = None \<and> writable disk ''none.json'' \<and>
   load_from_file 739923 dune_library (Some ''none.json'') disk =
     (Inr (), dune_library\<lparr> file_path := ''none.json'' \<rparr>, []) \<and>
   save_to_file (fst (snd (load_from_file 739923 dune_library (Some ''none.json'') disk)))
       None disk =
     (Inr (), dune_library\<lparr> file_path := ''none.json'' \<rparr>,
      disk\<lparr> entries := (entries disk)(''none.json'' \<mapsto> Readable (Document
             \<lparr> doc_name = Some ''My Personal Library'',
               doc_books = Some [to_dict dune] \<rparr>)) \<rparr>) \<and>
   \<not> writable disk '''' \<and>
   save_to_file dune_library (Some '''') disk =
     (Inl OSError, dune_library\<lparr> file_path := '''' \<rparr>, disk)"
proof -
  have lib: "file_path dune_library = ''library_data.json''"
    "name dune_library = ''My Personal Library''" "books dune_library = [dune]"
    by (simp_all add: dune_library_def Library_init_def)
  note missing = file_path_overwritten [of dune_library "''none.json''" disk 739923]
  note unwritable = file_path_overwritten [of dune_library "''''" disk 739923]
  from missing disk_entries(1)
  have loaded: "load_from_file 739923 dune_library (Some ''none.json'') disk =
     (Inr (), dune_library\<lparr> file_path := ''none.json'' \<rparr>, [])"
    by blast
  from missing disk_entries(1,4)
  have "save_to_file (fst (snd (load_from_file 739923 dune_library (Some ''none.json'') disk)))
       None disk =
     (Inr (), dune_library\<lparr> file_path := ''none.json'' \<rparr>,
      disk\<lparr> entries := (entries disk)(''none.json'' \<mapsto> Readable (Document
             \<lparr> doc_name = Some (name dune_library),
               doc_books = Some (map to_dict (books dune_library)) \<rparr>)) \<rparr>)"
    by blast
  then have saved:
    "save_to_file (fst (snd (load_from_file 739923 dune_library (Some ''none.json'') disk)))
       None disk =
     (Inr (), dune_library\<lparr> file_path := ''none.json'' \<rparr>,
      disk\<lparr> entries := (entries disk)(''none.json'' \<mapsto> Readable (Document
             \<lparr> doc_name = Some ''My Personal Library'',
               doc_books = Some [to_dict dune] \<rparr>)) \<rparr>)"
    by (simp only: lib list.map)
  from unwritable disk_entries(5)
  have refused: "save_to_file dune_library (Some '''') disk =
     (Inl OSError, dune_library\<lparr> file_path := '''' \<rparr>, disk)"
    by blast
  from loaded saved refused disk_entries(1,4,5) lib(1) show ?thesis
    by (intro conjI)
qed

subsection \<open>Statistics\<close>

lemma bit_length_upper: "n < 2 ^ bit_length n"
proof (induction n rule: bit_length.induct)
  case (1 n)
  show ?case
  proof (cases "n = 0")
    case True
    then show ?thesis by (simp add: bit_length.simps)
  next
    case False
    with 1 have "n div 2 < 2 ^ bit_length (n div 2)" by simp
    then have "n < 2 * 2 ^ bit_length (n div 2)" by linarith
    with False show ?thesis by (simp add: bit_length.simps [of n])
  qed
qed

lemma bit_length_lower: "n \<noteq> 0 \<Longrightarrow> 2 ^ bit_length n \<le> 2 * n"
proof (induction n rule: bit_length.induct)
  case (1 n)
  show ?case
  proof (cases "n div 2 = 0")
    case True
    with 1 have "n = 1" by linarith
    then show ?thesis by (simp add: bit_length.simps)
  next
    case False
    with 1 have "2 ^ bit_length (n div 2) \<le> 2 * (n div 2)" by simp
    then have "2 * 2 ^ bit_length (n div 2) \<le> 2 * n" by linarith
    with 1 show ?thesis by (simp add: bit_length.simps [of n])
  qed
qed

lemma bit_length_bounded:
  assumes "d > 0" and "n \<le> 2 ^ 51 * d"
  shows "int (bit_length n) - int (bit_length d) \<le> 51"
proof (cases "n = 0")
  case True
  then show ?thesis by (simp add: bit_length.simps)
next
  case False
  have "2 ^ bit_length n \<le> 2 * n" using False by (rule bit_length_lower)
  also have "\<dots> \<le> 2 * (2 ^ 51 * d)" using assms by simp
  also have "\<dots> < 2 * (2 ^ 51 * 2 ^ bit_length d)" using bit_length_upper [of d] by simp
  also have "\<dots> = 2 ^ (bit_length d + 52)" by (simp add: power_add)
  finally have "bit_length n < bit_length d + 52"
    by (simp add: power_strict_increasing_iff)
  then show ?thesis by linarith
qed

lemma binade_le: "binade n d \<le> int (bit_length n) - int (bit_length d)"
  by (simp add: binade_def Let_def)

lemma odd_mantissa_value:
  "odd_mantissa m e = (m', e') \<Longrightarrow> of_nat m' * (2::rat) powi e' = of_nat m * 2 powi e"
proof (induction m e rule: odd_mantissa.induct)
  case (1 m e)
  show ?case
  proof (cases "m = 0")
    case True
    with 1 show ?thesis by (simp add: odd_mantissa.simps)
  next
    case nonzero: False
    show ?thesis
    proof (cases "even m")
      case True
      with nonzero 1 have "of_nat m' * (2::rat) powi e' = of_nat (m div 2) * 2 powi (e + 1)"
        by (simp add: odd_mantissa.simps [of m e])
      also have "\<dots> = of_nat (2 * (m div 2)) * 2 powi e"
        by (simp add: power_int_add)
      also have "2 * (m div 2) = m" using True by simp
      finally show ?thesis .
    next
      case False
      with nonzero 1 show ?thesis by (simp add: odd_mantissa.simps [of m e])
    qed
  qed
qed

lemma round_half_even_le:
  assumes "d > 0"
  shows "(of_nat (round_half_even n d) :: rat) \<le> of_nat n / of_nat d + 1"
proof -
  have "round_half_even n d \<le> n div d + 1"
    by (simp add: round_half_even_def Let_def)
  then have "(of_nat (round_half_even n d) :: rat) \<le> of_nat (n div d + 1)"
    by (simp only: of_nat_le_iff)
  moreover have "(of_nat (n div d) :: rat) \<le> of_nat n / of_nat d"
    using of_nat_div_le_of_nat by auto
  ultimately show ?thesis by simp
qed

lemma nearest_double_small:
  assumes d: "d > 0" and small: "n \<le> 2 ^ 51 * d"
  shows "\<exists>x. nearest_double neg n d = Inr x \<and>
             of_nat (mantissa x) * (2::rat) powi exponent x \<le> of_nat n / of_nat d + 1"
proof (cases "n = 0")
  case True
  then show ?thesis by (simp add: nearest_double_def)
next
  case False
  define p where "p = max (binade n d) (- 1022) - 52"
  define k where "k = nat (- p)"
  define m where "m = round_half_even (n * 2 ^ k) d"
  from binade_le [of n d] bit_length_bounded [OF d small] have "p < 0"
    by (simp add: p_def)
  then have p: "p = - int k" "p \<le> 0" "\<not> 0 \<le> p"
    by (simp_all add: k_def)
  obtain m' e' where norm: "odd_mantissa m p = (m', e')"
    by (cases "odd_mantissa m p") auto
  have shift: "max (binade n d) (- 1022) - 52 = p"
    by (simp add: p_def)
  have result: "nearest_double neg n d = Inr \<lparr> negative = neg, mantissa = m', exponent = e' \<rparr>"
    unfolding nearest_double_def Let_def shift
    using False p(2,3) norm by (simp add: m_def k_def)
  have "of_nat m' * (2::rat) powi e' = of_nat m * 2 powi p"
    using norm by (rule odd_mantissa_value)
  also have "\<dots> = of_nat m / 2 ^ k"
    by (simp add: p power_int_minus field_simps)
  also have "\<dots> \<le> (of_nat (n * 2 ^ k) / of_nat d + 1) / 2 ^ k"
    using round_half_even_le [OF d, of "n * 2 ^ k"] by (simp add: m_def divide_right_mono)
  also have "\<dots> = of_nat n / of_nat d + 1 / 2 ^ k"
    by (simp add: field_simps)
  also have "\<dots> \<le> of_nat n / of_nat d + 1"
    by (simp add: divide_le_eq_1 one_le_power)
  finally show ?thesis using result by simp
qed

lemma round2_small:
  assumes "of_nat (mantissa x) * (2::rat) powi exponent x \<le> 6"
  shows "\<exists>y. round2 x = Inr y"
proof -
  define M where "M = (if 0 \<le> exponent x then mantissa x * 100 * 2 ^ nat (exponent x)
        else round_half_even (mantissa x * 100) (2 ^ nat (- exponent x)))"
  have "(of_nat M :: rat) \<le> 601"
  proof (cases "0 \<le> exponent x")
    case True
    then have "(of_nat M :: rat) = 100 * (of_nat (mantissa x) * 2 powi exponent x)"
      by (simp add: M_def power_int_def)
    with assms show ?thesis by simp
  next
    case False
    then have "(of_nat M :: rat) \<le> of_nat (mantissa x * 100) / of_nat (2 ^ nat (- exponent x)) + 1"
      using round_half_even_le [of "2 ^ nat (- exponent x)" "mantissa x * 100"]
      by (simp add: M_def)
    also have "\<dots> = 100 * (of_nat (mantissa x) * 2 powi exponent x) + 1"
      using False by (simp add: power_int_def field_simps)
    finally show ?thesis using assms by simp
  qed
  then have "M \<le> 601" by (metis of_nat_le_iff of_nat_numeral)
  then have "M \<le> 2 ^ 51 * 100" by simp
  from nearest_double_small [OF _ this, of "negative x"] show ?thesis
    by (auto simp add: round2_def M_def)
qed

lemma rounded_quotient_small:
  assumes "0 < b" and "\<bar>a\<bar> \<le> 5 * b"
  shows "\<exists>y. truediv a b = Inr y \<and> (\<exists>z. round2 y = Inr z)"
proof -
  from assms have d: "nat \<bar>b\<bar> > 0"
    by simp
  from assms have "nat \<bar>a\<bar> \<le> nat (5 * b)"
    by (simp only: nat_mono)
  also from assms have "nat (5 * b) = 5 * nat \<bar>b\<bar>"
    by (simp add: nat_mult_distrib)
  finally have "nat \<bar>a\<bar> \<le> 5 * nat \<bar>b\<bar>" .
  then have small: "nat \<bar>a\<bar> \<le> 2 ^ 51 * nat \<bar>b\<bar>"
    by simp
  from nearest_double_small [OF d small, of "(a < 0) \<noteq> (b < 0)"] obtain y
    where y: "truediv a b = Inr y"
      and "of_nat (mantissa y) * (2::rat) powi exponent y \<le> of_nat (nat \<bar>a\<bar>) / of_nat (nat \<bar>b\<bar>) + 1"
    using assms by (auto simp add: truediv_def)
  moreover have "(of_nat (nat \<bar>a\<bar>) :: rat) / of_nat (nat \<bar>b\<bar>) \<le> 5"
    using assms by (simp add: divide_le_eq) 
  ultimately have "of_nat (mantissa y) * (2::rat) powi exponent y \<le> 6" by linarith
  from round2_small [OF this] y show ?thesis by simp
qed


lemma rated_ratings_Nil: "rated_ratings [] = []"
  by (simp add: rated_ratings_def map_filter_simps)

lemma rated_ratings_Cons:
  "rated_ratings (b # bs) =
     (case truthy (rating b) of None \<Rightarrow> rated_ratings bs | Some r \<Rightarrow> r # rated_ratings bs)"
  by (simp add: rated_ratings_def split: option.splits)

lemma rated_ratings_append: "rated_ratings (bs @ cs) = rated_ratings bs @ rated_ratings cs"
  by (induction bs) (simp_all add: rated_ratings_Nil rated_ratings_Cons split: option.splits)

lemma rated_ratings_replicate:
  "truthy (rating b) = Some r \<Longrightarrow> rated_ratings (replicate n b) = replicate n r"
  by (induction n) (simp_all add: rated_ratings_Nil rated_ratings_Cons)

lemma count_book_totals:
  assumes "count_book (s, t, n) b = (s', t', n')"
  shows "t' = t + sum_list (rated_ratings [b]) \<and> n' = n + length (rated_ratings [b]) \<and>
         avg_rating s' = avg_rating s"
  using assms
  by (auto simp add: count_book_def count_rating_def count_tags_def count_year_def
      count_author_def count_genre_def rated_ratings_Cons rated_ratings_Nil Let_def
      split: option.splits if_splits)

lemma foldl_count_book_totals:
  "foldl count_book (s, t, n) bs = (s', t', n') \<Longrightarrow>
     t' = t + sum_list (rated_ratings bs) \<and> n' = n + length (rated_ratings bs) \<and>
     avg_rating s' = avg_rating s"
proof (induction bs arbitrary: s t n)
  case Nil
  then show ?case by (simp add: rated_ratings_Nil)
next
  case (Cons b bs)
  obtain s1 t1 n1 where step: "count_book (s, t, n) b = (s1, t1, n1)"
    by (cases "count_book (s, t, n) b") auto
  with Cons.prems have "foldl count_book (s1, t1, n1) bs = (s', t', n')"
    by simp
  from Cons.IH [OF this] count_book_totals [OF step] show ?case
    by (auto simp add: rated_ratings_Cons rated_ratings_Nil split: option.splits)
qed

lemma avg_rating_sort_histograms: "avg_rating (sort_histograms stats) = avg_rating stats"
  by (simp add: sort_histograms_def)

lemma avg_rating_get_statistics:
  "map_sum id avg_rating (get_statistics lib) =
     (if rated_ratings (books lib) = [] then Inr (PyInt 0)
      else map_sum id PyFloat
             (rounded_quotient (sum_list (rated_ratings (books lib)))
                               (int (length (rated_ratings (books lib))))))"
proof (cases "books lib = []")
  case True
  then show ?thesis
    by (simp add: get_statistics_def rated_ratings_Nil)
next
  case False
  obtain s t n where run:
    "foldl count_book (initial_statistics (books lib), 0, 0) (books lib) = (s, t, n)"
    by (cases "foldl count_book (initial_statistics (books lib), 0, 0) (books lib)") auto
  from foldl_count_book_totals [OF run]
  have "t = sum_list (rated_ratings (books lib))" "n = length (rated_ratings (books lib))"
    "avg_rating s = PyInt 0"
    by (simp_all add: initial_statistics_def)
  with False run show ?thesis
    by (simp add: get_statistics_def avg_rating_sort_histograms split: sum.splits)
qed

lemma rated_is_present:
  "\<forall>b \<in> set bs. rating b \<noteq> Some 0 \<Longrightarrow> rated_ratings bs = present_ratings bs"
  by (induction bs)
     (auto simp add: rated_ratings_def present_ratings_def map_filter_simps truthy_def
      split: option.splits)

lemmas float_eval = rounded_quotient_def truediv_def round2_def nearest_double_def binade_def
  round_half_even_def bit_length.simps odd_mantissa.simps Let_def


lemma rounded_quotient_examples:
  "rounded_quotient 4 1 = Inr \<lparr> negative = False, mantissa = 1, exponent = 2 \<rparr>"
  "rounded_quotient 13 3 =
     Inr \<lparr> negative = False, mantissa = 2437573298314281, exponent = - 49 \<rparr>"
  "rounded_quotient 43 40 =
     Inr \<lparr> negative = False, mantissa = 4818851601286431, exponent = - 52 \<rparr>"
  "rounded_quotient huge_rating 1 = Inl OverflowError"
  by (simp_all add: float_eval huge_rating_def)

lemma rounded_quotient_case:
  "(case truediv a b of Inl e \<Rightarrow> Inl e | Inr mean \<Rightarrow> map_sum id PyFloat (round2 mean)) =
     map_sum id PyFloat (rounded_quotient a b)"
  by (simp add: rounded_quotient_def split: sum.splits)

lemma rated_ratings_in_range:
  "\<forall>b \<in> set bs. \<forall>r. rating b = Some r \<longrightarrow> 1 \<le> r \<and> r \<le> 5 \<Longrightarrow>
     \<forall>r \<in> set (rated_ratings bs). 1 \<le> r \<and> r \<le> 5"
  by (induction bs)
     (auto simp add: rated_ratings_Nil rated_ratings_Cons truthy_def split: option.splits if_splits)

lemma sum_list_in_range:
  "\<forall>r \<in> set rs. 1 \<le> r \<and> r \<le> (5::int) \<Longrightarrow> \<bar>sum_list rs\<bar> \<le> 5 * int (length rs)"
  by (induction rs) auto

lemma get_statistics_returns:
  assumes "\<forall>b \<in> set (books lib). \<forall>r. rating b = Some r \<longrightarrow> 1 \<le> r \<and> r \<le> 5"
  shows "\<exists>stats. get_statistics lib = Inr stats"
proof (cases "rated_ratings (books lib) = []")
  case True
  with avg_rating_get_statistics [of lib] show ?thesis
    by (cases "get_statistics lib") simp_all
next
  case False
  let ?rs = "rated_ratings (books lib)"
  from assms have "\<bar>sum_list ?rs\<bar> \<le> 5 * int (length ?rs)"
    by (intro sum_list_in_range rated_ratings_in_range)
  moreover from False have "0 < int (length ?rs)"
    by simp
  ultimately obtain y z where "truediv (sum_list ?rs) (int (length ?rs)) = Inr y"
    and "round2 y = Inr z"
    using rounded_quotient_small by blast
  then have "rounded_quotient (sum_list ?rs) (int (length ?rs)) = Inr z"
    by (simp add: rounded_quotient_def)
  with False avg_rating_get_statistics [of lib] show ?thesis
    by (cases "get_statistics lib") simp_all
qed

text \<open>
  C9 (average rating and the empty catalog). When no book is rated, \<open>get_statistics\<close>
  returns the integer 0 as the average. Otherwise the average is
  \<^verbatim>\<open>round(total / count, 2)\<close> for the sum and the number of the ratings of the rated
  books only: the double nearest to their mean, rounded to two decimal places; the
  call raises \<^verbatim>\<open>OverflowError\<close> instead when the mean is beyond the doubles. The
  rated books are those whose rating is present, as long as no book carries the
  rating 0 (which the loop counts as unrated), and when every rating that is present
  is one of 1 to 5 the call returns. On an empty catalog the call returns 0 books, 0
  available and 0 borrowed, empty histograms, the rating buckets 1 to 5 and
  \<open>unrated\<close> all 0, the average 0, and no oldest or newest book; it does not raise.
\<close>

theorem statistics_average:
  "map_sum id avg_rating (get_statistics lib) =
     (if rated_ratings (books lib) = [] then Inr (PyInt 0)
      else case truediv (sum_list (rated_ratings (books lib)))
                        (int (length (rated_ratings (books lib)))) of
             Inl e \<Rightarrow> Inl e
           | Inr mean \<Rightarrow> map_sum id PyFloat (round2 mean)) \<and>
   ((\<forall>b \<in> set (books lib). rating b \<noteq> Some 0) \<longrightarrow>
      rated_ratings (books lib) = present_ratings (books lib)) \<and>
   ((\<forall>b \<in> set (books lib). \<forall>r. rating b = Some r \<longrightarrow> 1 \<le> r \<and> r \<le> 5) \<longrightarrow>
      (\<exists>stats. get_statistics lib = Inr stats)) \<and>
   get_statistics (lib\<lparr> books := [] \<rparr>) =
     Inr \<lparr> total_books = 0, available_books = 0, borrowed_books = 0, genres = [],
           authors = [], years = [],
           ratings = [(Stars 1, 0), (Stars 2, 0), (Stars 3, 0), (Stars 4, 0), (Stars 5, 0),
                      (Unrated, 0)],
           tag_counts = [], avg_rating = PyInt 0, oldest_book = None, newest_book = None \<rparr>"
proof (intro conjI)
  show "map_sum id avg_rating (get_statistics lib) =
     (if rated_ratings (books lib) = [] then Inr (PyInt 0)
      else case truediv (sum_list (rated_ratings (books lib)))
                        (int (length (rated_ratings (books lib)))) of
             Inl e \<Rightarrow> Inl e
           | Inr mean \<Rightarrow> map_sum id PyFloat (round2 mean))"
    by (simp only: avg_rating_get_statistics rounded_quotient_case)
  show "(\<forall>b \<in> set (books lib). rating b \<noteq> Some 0) \<longrightarrow>
      rated_ratings (books lib) = present_ratings (books lib)"
    by (simp add: rated_is_present)
  show "(\<forall>b \<in> set (books lib). \<forall>r. rating b = Some r \<longrightarrow> 1 \<le> r \<and> r \<le> 5) \<longrightarrow>
      (\<exists>stats. get_statistics lib = Inr stats)"
    using get_statistics_returns by blast
  show "get_statistics (lib\<lparr> books := [] \<rparr>) =
     Inr \<lparr> total_books = 0, available_books = 0, borrowed_books = 0, genres = [],
           authors = [], years = [],
           ratings = [(Stars 1, 0), (Stars 2, 0), (Stars 3, 0), (Stars 4, 0), (Stars 5, 0),
                      (Unrated, 0)],
           tag_counts = [], avg_rating = PyInt 0, oldest_book = None, newest_book = None \<rparr>"
    by (simp add: get_statistics_def)
qed

lemma example_ratings:
  "rating emma = Some 4" "rating dune = None" "rating persuasion = Some 5"
  "rating walden = Some 4"
  by (simp_all add: emma_def dune_def persuasion_def walden_def Book_default_def Book_init_def)

lemma example_rated:
  "rated_ratings (books rated_shelf) = [4]"
  "rated_ratings (books rated_three) = [4, 5, 4]"
  "rated_ratings (books dune_library) = []"
  "rated_ratings (books forty) = replicate 37 1 @ replicate 3 2"
  "rated_ratings (books overrated) = [huge_rating]"
proof -
  have "huge_rating \<noteq> 0"
    by (simp add: huge_rating_def)
  then show "rated_ratings (books overrated) = [huge_rating]"
    by (simp add: overrated_def Library_init_def rated_ratings_Cons rated_ratings_Nil truthy_def)
qed (simp_all add: rated_shelf_def rated_three_def dune_library_def forty_def
      Library_init_def rated_ratings_Cons rated_ratings_Nil rated_ratings_append
      rated_ratings_replicate example_ratings truthy_def)

lemma single_book_statistics:
  "get_statistics rated_shelf =
     Inr \<lparr> total_books = 1, available_books = 1, borrowed_books = 0,
           genres = [(''Novel'', 1)], authors = [(''Austen'', 1)], years = [(1815, 1)],
           ratings = [(Stars 1, 0), (Stars 2, 0), (Stars 3, 0), (Stars 4, 1), (Stars 5, 0),
                      (Unrated, 0)],
           tag_counts = [],
           avg_rating = PyFloat \<lparr> negative = False, mantissa = 1, exponent = 2 \<rparr>,
           oldest_book = Some (''Emma'', 1815), newest_book = Some (''Emma'', 1815) \<rparr>"
  by (simp add: get_statistics_def rated_shelf_def Library_init_def emma_def Book_init_def
      initial_statistics_def count_book_def count_rating_def count_tags_def count_year_def
      count_author_def count_genre_def truthy_def sort_histograms_def sorted_by_count_def
      rounded_quotient_examples)

text \<open>
  The example of the specification: a single book with rating 4 has the average 4.0,
  the double \<open>1 * 2 ^ 2\<close>. The ratings 4, 5 and 4 beside an unrated book have the
  mean 13/3 and the average 4.33, the double \<open>2437573298314281 * 2 ^ - 49\<close>. Forty
  books with the ratings 1 (37 times) and 2 (3 times) have the mean 43/40, whose
  nearest double lies below 1.075, and the average 1.07, the double
  \<open>4818851601286431 * 2 ^ - 52\<close>. The library whose only book is unrated has the
  average 0, and the library with the book rated 2 to the 1024 raises. The single
  book is counted in the bucket 4 and nowhere else.
\<close>

theorem statistics_average_witness:
  "books rated_shelf = [emma] \<and> rating emma = Some 4 \<and>
   map_sum id avg_rating (get_statistics rated_shelf) =
     Inr (PyFloat \<lparr> negative = False, mantissa = 1, exponent = 2 \<rparr>) \<and>
   books rated_three = [emma, dune, persuasion, walden] \<and>
   present_ratings (books rated_three) = [4, 5, 4] \<and>
   map_sum id avg_rating (get_statistics rated_three) =
     Inr (PyFloat \<lparr> negative = False, mantissa = 2437573298314281, exponent = - 49 \<rparr>) \<and>
   (\<exists>stats. get_statistics rated_three = Inr stats) \<and>
   map_sum id avg_rating (get_statistics forty) =
     Inr (PyFloat \<lparr> negative = False, mantissa = 4818851601286431, exponent = - 52 \<rparr>) \<and>
   map_sum id avg_rating (get_statistics dune_library) = Inr (PyInt 0) \<and>
   map_sum id avg_rating (get_statistics overrated) = Inl OverflowError \<and>
   ratings (projr (get_statistics rated_shelf)) =
     [(Stars 1, 0), (Stars 2, 0), (Stars 3, 0), (Stars 4, 1), (Stars 5, 0), (Unrated, 0)]"
proof -
  have buckets: "ratings (projr (get_statistics rated_shelf)) =
     [(Stars 1, 0), (Stars 2, 0), (Stars 3, 0), (Stars 4, 1), (Stars 5, 0), (Unrated, 0)]"
    by (simp add: single_book_statistics)
  have shelves: "books rated_shelf = [emma]" "books rated_three = [emma, dune, persuasion, walden]"
    by (simp_all add: rated_shelf_def rated_three_def)
  have no_zero: "\<forall>b \<in> set (books rated_three). rating b \<noteq> Some 0"
    and in_range: "\<forall>b \<in> set (books rated_three). \<forall>r. rating b = Some r \<longrightarrow> 1 \<le> r \<and> r \<le> 5"
    by (simp_all add: shelves example_ratings)
  from statistics_average [of rated_shelf]
  have one: "map_sum id avg_rating (get_statistics rated_shelf) =
     Inr (PyFloat \<lparr> negative = False, mantissa = 1, exponent = 2 \<rparr>)"
    by (simp add: example_rated rounded_quotient_case rounded_quotient_examples)
  from statistics_average [of rated_three]
  have three: "map_sum id avg_rating (get_statistics rated_three) =
     Inr (PyFloat \<lparr> negative = False, mantissa = 2437573298314281, exponent = - 49 \<rparr>)"
    by (simp add: example_rated rounded_quotient_case rounded_quotient_examples)
  from statistics_average [of rated_three] no_zero
  have present: "present_ratings (books rated_three) = [4, 5, 4]"
    by (simp add: example_rated)
  from statistics_average [of rated_three] in_range
  have returns: "\<exists>stats. get_statistics rated_three = Inr stats"
    by blast
  from statistics_average [of forty]
  have many: "map_sum id avg_rating (get_statistics forty) =
     Inr (PyFloat \<lparr> negative = False, mantissa = 4818851601286431, exponent = - 52 \<rparr>)"
    by (simp add: example_rated sum_list_replicate rounded_quotient_case
        rounded_quotient_examples)
  from statistics_average [of dune_library]
  have none: "map_sum id avg_rating (get_statistics dune_library) = Inr (PyInt 0)"
    by (simp add: example_rated)
  from statistics_average [of overrated]
  have huge: "map_sum id avg_rating (get_statistics overrated) = Inl OverflowError"
    by (simp add: example_rated rounded_quotient_case rounded_quotient_examples)
  from shelves example_ratings(1) one three present returns many none huge buckets
  show ?thesis
    by (intro conjI)
qed

end
